theory Spec2Isabelle
  imports Main
begin

section \<open>Strings as Python sees them\<close>

text \<open>
  A Python \<open>str\<close> is modelled as a \<open>string\<close>; a \<open>char\<close> stands for one code point
  below 256 (Latin-1), so that \<open>length\<close> counts what Python's \<open>len\<close> counts. The character
  classes below are the ones Python 3 uses on that range.
\<close>

definition newline :: char where
  "newline = CHR 0x0A"

definition is_space :: "char \<Rightarrow> bool" where
  \<comment> \<open>\<open>str.isspace\<close>: what \<open>str.strip()\<close> removes.\<close>
  "is_space c =
     (let n = (of_char c :: nat)
      in (9 \<le> n \<and> n \<le> 13) \<or> (28 \<le> n \<and> n \<le> 32) \<or> n = 133 \<or> n = 160)"

definition is_word :: "char \<Rightarrow> bool" where
  \<comment> \<open>The class \<open>\w\<close> of \<open>re\<close> on \<open>str\<close> patterns: alphanumeric or underscore.\<close>
  "is_word c =
     (let n = (of_char c :: nat)
      in (48 \<le> n \<and> n \<le> 57) \<or> (65 \<le> n \<and> n \<le> 90) \<or> n = 95 \<or> (97 \<le> n \<and> n \<le> 122)
         \<or> n = 170 \<or> n = 178 \<or> n = 179 \<or> n = 181 \<or> n = 185 \<or> n = 186
         \<or> (188 \<le> n \<and> n \<le> 190)
         \<or> (192 \<le> n \<and> n \<le> 255 \<and> n \<noteq> 215 \<and> n \<noteq> 247))"

definition lower_char :: "char \<Rightarrow> char" where
  "lower_char c =
     (let n = (of_char c :: nat)
      in if (65 \<le> n \<and> n \<le> 90) \<or> (192 \<le> n \<and> n \<le> 222 \<and> n \<noteq> 215)
         then char_of (n + 32) else c)"

definition lower :: "string \<Rightarrow> string" where
  \<comment> \<open>\<open>str.lower()\<close>\<close>
  "lower s = map lower_char s"

definition strip :: "string \<Rightarrow> string" where
  \<comment> \<open>\<open>str.strip()\<close>: leading and trailing whitespace removed.\<close>
  "strip s = rev (dropWhile is_space (rev (dropWhile is_space s)))"

fun split_on :: "char \<Rightarrow> string \<Rightarrow> string list" where
  \<comment> \<open>\<open>s.split(sep)\<close> for a one-character separator; the result is never empty.\<close>
  "split_on sep [] = [[]]"
| "split_on sep (c # cs) =
     (if c = sep then [] # split_on sep cs
      else (case split_on sep cs of
              [] \<Rightarrow> [[c]]
            | w # ws \<Rightarrow> (c # w) # ws))"

definition split_once :: "char \<Rightarrow> string \<Rightarrow> string list" where
  \<comment> \<open>\<open>s.split(sep, 1)\<close>: at most one split, at the first separator.\<close>
  "split_once sep s =
     (if sep \<in> set s
      then [takeWhile (\<lambda>c. c \<noteq> sep) s, tl (dropWhile (\<lambda>c. c \<noteq> sep) s)]
      else [s])"

definition ext_of :: "string \<Rightarrow> string" where
  \<comment> \<open>\<open>file.split(".")[-1]\<close>\<close>
  "ext_of file = last (split_on CHR ''.'' file)"

section \<open>Paths\<close>

definition os_path_join :: "string \<Rightarrow> string \<Rightarrow> string" where
  \<comment> \<open>\<open>os.path.join(a, b)\<close> on POSIX.\<close>
  "os_path_join a b =
     (if b \<noteq> [] \<and> hd b = CHR ''/'' then b
      else if a = [] \<or> last a = CHR ''/'' then a @ b
      else a @ ''/'' @ b)"

definition path_name :: "string \<Rightarrow> string" where
  \<comment> \<open>\<open>Path(p).name\<close>: the last component; empty and \<open>.\<close> components are dropped
      when the path is parsed.\<close>
  "path_name p =
     (let parts = filter (\<lambda>x. x \<noteq> [] \<and> x \<noteq> ''.'') (split_on CHR ''/'' p)
      in if parts = [] then [] else last parts)"

definition path_stem :: "string \<Rightarrow> string" where
  \<comment> \<open>\<open>Path(p).stem\<close>: the name without its last suffix; a leading or a trailing dot
      starts no suffix.\<close>
  "path_stem p =
     (let name = path_name p;
          suf = ext_of name;
          i = length name - Suc (length suf)
      in if CHR ''.'' \<in> set name \<and> 0 < i \<and> suf \<noteq> [] then take i name else name)"

section \<open>The data handler\<close>

text \<open>
  The fields of \<open>DataHandler\<close> that its methods change. A Python \<open>dict\<close> keeps its keys in
  insertion order and stores each key once: an association list, written through
  \<open>dict_set\<close>.
\<close>

fun dict_set :: "('k \<times> 'v) list \<Rightarrow> 'k \<Rightarrow> 'v \<Rightarrow> ('k \<times> 'v) list" where
  \<comment> \<open>\<open>d[k] = v\<close>\<close>
  "dict_set [] k v = [(k, v)]"
| "dict_set ((k', v') # d) k v =
     (if k' = k then (k, v) # d else (k', v') # dict_set d k v)"

record 'v data_handler =
  data :: "string list"
  data_dict :: "(string \<times> string) list"
  vectorized_data :: "(string \<times> 'v) list"

definition init_handler :: "'v data_handler" where
  \<comment> \<open>\<open>__init__\<close>, the path checks passed.\<close>
  "init_handler = \<lparr>data = [], data_dict = [], vectorized_data = []\<rparr>"

definition file_types :: "string list" where
  "file_types = [''pdf'', ''docx'', ''txt'', ''pptx'', ''nxml'']"

text \<open>
  The files on disk and what was printed. \<open>disk\<close> holds the paths of the files under the
  data folder, \<open>cleaned\<close> the text files of the cleaned-data folder by name, \<open>artifact\<close>
  the members of the JSON object in \<open>vectorized_data.json\<close>, if the file exists.
\<close>

record 'v world =
  disk :: "string set"
  cleaned :: "(string \<times> string) list"
  artifact :: "(string \<times> 'v) list option"
  out :: "string list"

definition print :: "string \<Rightarrow> 'v world \<Rightarrow> 'v world" where
  "print msg w = w\<lparr>out := out w @ [msg]\<rparr>"

subsection \<open>\<open>load_data\<close>\<close>

datatype verdict = Keep | Ignore | Delete

definition classify :: "string \<Rightarrow> verdict" where
  \<comment> \<open>The three branches of the inner loop of \<open>load_data\<close>.\<close>
  "classify file =
     (if ext_of file \<in> set file_types then Keep
      else if file = ''.gitkeep'' then Ignore
      else Delete)"

definition load_file ::
  "string \<Rightarrow> string \<Rightarrow> 'v data_handler \<times> 'v world \<Rightarrow> 'v data_handler \<times> 'v world" where
  "load_file root file hw =
     (case hw of (h, w) \<Rightarrow>
        (case classify file of
           Keep \<Rightarrow> (h\<lparr>data := data h @ [os_path_join root file]\<rparr>, w)
         | Ignore \<Rightarrow> (h, w)
         | Delete \<Rightarrow>
             (h, (print (''File '' @ file @ '' is not in the accepted file types. Deleting...'') w)
                   \<lparr>disk := disk w - {os_path_join root file}\<rparr>)))"

fun load_dir ::
  "string \<Rightarrow> string list \<Rightarrow> 'v data_handler \<times> 'v world \<Rightarrow> 'v data_handler \<times> 'v world" where
  "load_dir root [] hw = hw"
| "load_dir root (file # files) hw = load_dir root files (load_file root file hw)"

fun load_walk ::
  "(string \<times> string list) list \<Rightarrow> 'v data_handler \<times> 'v world \<Rightarrow> 'v data_handler \<times> 'v world" where
  "load_walk [] hw = hw"
| "load_walk ((root, files) # rest) hw =
     load_walk rest
       (load_dir root files (fst hw, print (''Reading '' @ root @ ''...'') (snd hw)))"

definition load_data ::
  "(string \<times> string list) list \<Rightarrow> 'v data_handler \<times> 'v world \<Rightarrow> 'v data_handler \<times> 'v world" where
  \<comment> \<open>The argument is what \<open>os.walk(self.data_path)\<close> yields: each directory with the
      names of its files.\<close>
  "load_data walk hw = load_walk walk (fst hw, print ''Loading data...'' (snd hw))"

subsection \<open>Title sanitization, as \<open>clean_data\<close> does it\<close>

definition invalid_chars :: string where
  "invalid_chars = [CHR ''<'', CHR ''>'', CHR '':'', CHR 0x22, CHR ''/'', CHR 0x5C,
                    CHR ''|'', CHR ''?'', CHR ''*'']"

definition sanitize_title :: "string \<Rightarrow> string" where
  "sanitize_title title = strip (filter (\<lambda>c. c \<notin> set invalid_chars) title)"

definition safe_title :: "string \<Rightarrow> bool" where
  \<comment> \<open>No invalid character, no whitespace at either end.\<close>
  "safe_title t =
     (list_all (\<lambda>c. c \<notin> set invalid_chars) t
      \<and> (t = [] \<or> (\<not> is_space (hd t) \<and> \<not> is_space (last t))))"

subsection \<open>Errors\<close>

text \<open>
  The exceptions the code raises or lets through; \<open>LibraryError\<close> stands for whatever
  an external library or collaborator raises.
\<close>

datatype error =
    ValueError
  | AttributeError
  | IndexError
  | FileNotFoundError
  | EOFError
  | EnvironmentError
  | RuntimeError
  | LibraryError

subsection \<open>What the external libraries read from a file\<close>

text \<open>
  An element of an \<open>lxml\<close> tree: its tag, its attributes, its \<open>.text\<close> (the text before
  the first child, \<open>None\<close> when there is none) and its child elements.
\<close>

datatype xml = Element (tag: string) (attrib: "(string \<times> string) list")
                       (elem_text: "string option") (children: "xml list")

text \<open>
  Each reader is \<open>None\<close> where the library raises. \<open>fitz_pages\<close> is
  \<open>page.get_text("text")\<close> of every page, \<open>pptx_slides\<close> gives for every slide its
  shapes, a shape being its \<open>.text\<close> when it has that attribute.
\<close>

record readers =
  fitz_pages :: "string \<Rightarrow> string list option"
  read_text :: "string \<Rightarrow> string option"
  docx2txt_process :: "string \<Rightarrow> string option"
  pptx_slides :: "string \<Rightarrow> string option list list option"
  et_parse :: "string \<Rightarrow> xml option"

subsection \<open>\<open>__clean_pdf\<close>\<close>

definition hyphen_match :: "string \<Rightarrow> (string \<times> string \<times> string) option" where
  \<comment> \<open>One attempt to match \<open>(\w+)-\n(\w+)\<close> at the start of \<open>s\<close>: the two groups and
      what follows the match. \<open>\w+\<close> is greedy and the hyphen is no word character, so a
      group is the whole run of word characters.\<close>
  "hyphen_match s =
     (let g1 = takeWhile is_word s
      in if g1 = [] then None
         else (case dropWhile is_word s of
                 h # n # r \<Rightarrow>
                   if h = CHR ''-'' \<and> n = newline \<and> takeWhile is_word r \<noteq> []
                   then Some (g1, takeWhile is_word r, dropWhile is_word r)
                   else None
               | _ \<Rightarrow> None))"

lemma hyphen_match_shorter:
  "hyphen_match s = Some (g1, g2, r) \<Longrightarrow> length r < length s"
proof -
  assume m: "hyphen_match s = Some (g1, g2, r)"
  then obtain h n r' where d: "dropWhile is_word s = h # n # r'" and r: "r = dropWhile is_word r'"
    by (auto simp: hyphen_match_def Let_def split: if_splits list.splits)
  have "length r \<le> length r'" using r by (simp add: length_dropWhile_le)
  moreover have "length (dropWhile is_word s) \<le> length s" by (rule length_dropWhile_le)
  ultimately show ?thesis using d by simp
qed

function re_sub_hyphen :: "string \<Rightarrow> string" where
  \<comment> \<open>\<open>re.sub(r"(\w+)-\n(\w+)", r"\1\2", text)\<close>: the matches are found from left to
      right, each search starting where the previous match ended.\<close>
  "re_sub_hyphen [] = []"
| "re_sub_hyphen (c # cs) =
     (case hyphen_match (c # cs) of
        Some (g1, g2, r) \<Rightarrow> g1 @ g2 @ re_sub_hyphen r
      | None \<Rightarrow> c # re_sub_hyphen cs)"
  by pat_completeness auto
termination
  by (relation "measure length") (auto dest: hyphen_match_shorter)

fun re_sub_newline :: "char option \<Rightarrow> string \<Rightarrow> string" where
  \<comment> \<open>\<open>re.sub(r"(?<!\n)\n(?!\n)", " ", text)\<close>; the first argument is the character
      before the current position.\<close>
  "re_sub_newline prev [] = []"
| "re_sub_newline prev (c # cs) =
     (if c = newline \<and> prev \<noteq> Some newline \<and> (case cs of [] \<Rightarrow> True | d # _ \<Rightarrow> d \<noteq> newline)
      then CHR '' '' else c) # re_sub_newline (Some c) cs"

definition pdf_fix :: "string \<Rightarrow> string" where
  \<comment> \<open>The two substitutions of \<open>__clean_pdf\<close>, in its order.\<close>
  "pdf_fix t = re_sub_newline None (re_sub_hyphen t)"

definition pdf_pages_text :: "string list \<Rightarrow> string" where
  \<comment> \<open>\<open>text += page.get_text("text") + "\n\n"\<close> over the pages.\<close>
  "pdf_pages_text pages = foldl (\<lambda>t page. t @ page @ [newline, newline]) [] pages"

type_synonym 'v extraction = "error + ((string \<times> string) option \<times> 'v world)"

definition clean_pdf :: "readers \<Rightarrow> string \<Rightarrow> 'v world \<Rightarrow> 'v extraction" where
  "clean_pdf lib file w =
     (let w1 = print (''Cleaning '' @ file @ ''...'') w
      in if lower (ext_of file) \<noteq> ''pdf'' then Inl ValueError
         else (case fitz_pages lib file of
                 None \<Rightarrow> Inl LibraryError
               | Some pages \<Rightarrow> Inr (Some (path_stem file, pdf_fix (pdf_pages_text pages)), w1)))"

subsection \<open>\<open>__clean_txt\<close>, \<open>__clean_docx\<close>, \<open>__clean_pptx\<close>\<close>

definition clean_txt :: "readers \<Rightarrow> string \<Rightarrow> 'v world \<Rightarrow> 'v extraction" where
  "clean_txt lib file w =
     (if ext_of file \<notin> {''txt'', ''TXT''} then Inl ValueError
      else (case read_text lib file of
              None \<Rightarrow> Inl LibraryError
            | Some t \<Rightarrow> Inr (Some (path_stem file, t), w)))"

definition clean_docx :: "readers \<Rightarrow> string \<Rightarrow> 'v world \<Rightarrow> 'v extraction" where
  "clean_docx lib file w =
     (if ext_of file \<notin> {''docx'', ''DOCX''} then Inl ValueError
      else (case docx2txt_process lib file of
              None \<Rightarrow> Inl LibraryError
            | Some t \<Rightarrow>
                Inr (Some (hd (split_on CHR ''.'' (last (split_on CHR ''/'' file))), t), w)))"

definition pptx_text :: "string option list list \<Rightarrow> string" where
  "pptx_text slides =
     foldl (\<lambda>t slide. foldl (\<lambda>t shape. case shape of None \<Rightarrow> t | Some x \<Rightarrow> t @ x) t slide)
       [] slides"

definition clean_pptx :: "readers \<Rightarrow> string \<Rightarrow> 'v world \<Rightarrow> 'v extraction" where
  "clean_pptx lib file w =
     (if ext_of file \<notin> {''pptx'', ''PPTX''} then Inl ValueError
      else (case pptx_slides lib file of
              None \<Rightarrow> Inl LibraryError
            | Some slides \<Rightarrow> Inr (Some (path_stem file, pptx_text slides), w)))"

subsection \<open>\<open>__clean_nxml\<close>\<close>

fun descendants :: "xml \<Rightarrow> xml list" where
  \<comment> \<open>The elements below an element, in document order; \<open>.//\<close> searches these, never
      the element itself.\<close>
  "descendants (Element t a x cs) = concat (map (\<lambda>c. c # descendants c) cs)"

definition find_title :: "xml \<Rightarrow> xml option" where
  \<comment> \<open>\<open>root.find(".//title-group/title")\<close>\<close>
  "find_title root =
     (case concat (map (\<lambda>g. filter (\<lambda>e. tag e = ''title'') (children g))
                       (filter (\<lambda>g. tag g = ''title-group'') (descendants root))) of
        [] \<Rightarrow> None
      | e # _ \<Rightarrow> Some e)"

definition findall_sec :: "xml \<Rightarrow> xml list" where
  \<comment> \<open>\<open>root.findall(".//sec")\<close>\<close>
  "findall_sec root = filter (\<lambda>e. tag e = ''sec'') (descendants root)"

definition truthy :: "string option \<Rightarrow> bool" where
  \<comment> \<open>Python's truth value of \<open>element.text\<close>: neither \<open>None\<close> nor empty.\<close>
  "truthy x = (case x of None \<Rightarrow> False | Some s \<Rightarrow> s \<noteq> [])"

fun sec_children_loop :: "string \<Rightarrow> xml list \<Rightarrow> string" where
  \<comment> \<open>\<open>for element in sec\<close>, the text so far being the first argument.\<close>
  "sec_children_loop txt [] = txt"
| "sec_children_loop txt (e # es) =
     sec_children_loop
       (if tag e = ''title'' \<and> truthy (elem_text e) then txt @ the (elem_text e) @ [newline]
        else if tag e = ''p'' \<and> truthy (elem_text e) then txt @ the (elem_text e) @ [newline]
        else txt) es"

definition excluded_sec_type :: string where
  "excluded_sec_type = ''Continuing Education Activity''"

fun sec_loop :: "string \<Rightarrow> xml list \<Rightarrow> string" where
  \<comment> \<open>\<open>for sec in root.findall(".//sec")\<close>\<close>
  "sec_loop txt [] = txt"
| "sec_loop txt (sec # secs) =
     sec_loop
       (case map_of (attrib sec) ''sec-type'' of
          None \<Rightarrow> txt
        | Some sec_type \<Rightarrow>
            if sec_type \<noteq> excluded_sec_type then sec_children_loop txt (children sec) else txt)
       secs"

definition format_title :: "string option \<Rightarrow> string" where
  \<comment> \<open>\<open>f"StatPearls Chapter: {title}"\<close>; a missing text is formatted as \<open>None\<close>.\<close>
  "format_title t = ''StatPearls Chapter: '' @ (case t of None \<Rightarrow> ''None'' | Some s \<Rightarrow> s)"

definition nxml_extract :: "string \<Rightarrow> xml \<Rightarrow> 'v world \<Rightarrow> (string \<times> string) option \<times> 'v world" where
  \<comment> \<open>\<open>__clean_nxml\<close> from the parsed tree on.\<close>
  "nxml_extract file root w =
     (case find_title root of
        None \<Rightarrow> (None, print (''Error extracting title from '' @ file @ ''. Skipping...'') w)
      | Some t \<Rightarrow>
          (let txt = sec_loop [] (findall_sec root)
           in if txt = []
              then (None, print (''Error extracting text from '' @ file @ ''. Skipping...'') w)
              else (Some (format_title (elem_text t), txt), w)))"

definition clean_nxml :: "readers \<Rightarrow> string \<Rightarrow> 'v world \<Rightarrow> 'v extraction" where
  "clean_nxml lib file w =
     (if ext_of file \<noteq> ''nxml'' then Inl ValueError
      else (case et_parse lib file of
              None \<Rightarrow> Inl LibraryError
            | Some root \<Rightarrow> Inr (nxml_extract file root w)))"

subsection \<open>\<open>clean_data\<close>\<close>

definition record_cleaned ::
  "string \<Rightarrow> 'v extraction \<Rightarrow> 'v data_handler \<Rightarrow> error + 'v data_handler \<times> 'v world" where
  \<comment> \<open>The loop body of \<open>clean_data\<close> after the extractor returned.\<close>
  "record_cleaned file r h =
     (case r of
        Inl e \<Rightarrow> Inl e
      | Inr (None, w) \<Rightarrow> Inr (h, print (''Error cleaning '' @ file @ ''. Skipping...'') w)
      | Inr (Some (title, txt), w) \<Rightarrow>
          Inr (h\<lparr>data_dict := dict_set (data_dict h) title txt\<rparr>,
               w\<lparr>cleaned := dict_set (cleaned w) (sanitize_title title @ ''.txt'') txt\<rparr>))"

definition dispatch :: "readers \<Rightarrow> string \<Rightarrow> 'v world \<Rightarrow> 'v extraction option" where
  \<comment> \<open>The chain of tests on the extension in \<open>clean_data\<close>; \<open>None\<close> is its last branch,
      where no extractor is called.\<close>
  "dispatch lib file w =
     (if ext_of file \<in> {''pdf'', ''PDF''} then Some (clean_pdf lib file w)
      else if ext_of file \<in> {''txt'', ''TXT''} then Some (clean_txt lib file w)
      else if ext_of file \<in> {''docx'', ''DOCX''} then Some (clean_docx lib file w)
      else if ext_of file \<in> {''pptx'', ''PPTX''} then Some (clean_pptx lib file w)
      else if ext_of file = ''nxml'' then Some (clean_nxml lib file w)
      else None)"

definition clean_file ::
  "readers \<Rightarrow> string \<Rightarrow> 'v data_handler \<times> 'v world \<Rightarrow> error + 'v data_handler \<times> 'v world" where
  "clean_file lib file hw =
     (case hw of (h, w) \<Rightarrow>
        (case dispatch lib file w of
           None \<Rightarrow>
             Inr (h, print (''File '' @ file @
               '' is not in the accepted file types. Should have been deleted... Skipping...'') w)
         | Some r \<Rightarrow> record_cleaned file r h))"

fun clean_files ::
  "readers \<Rightarrow> string list \<Rightarrow> 'v data_handler \<times> 'v world \<Rightarrow> error + 'v data_handler \<times> 'v world" where
  "clean_files lib [] hw = Inr hw"
| "clean_files lib (file # files) hw =
     (case clean_file lib file hw of
        Inl e \<Rightarrow> Inl e
      | Inr hw' \<Rightarrow> clean_files lib files hw')"

definition clean_data ::
  "readers \<Rightarrow> 'v data_handler \<times> 'v world \<Rightarrow> error + 'v data_handler \<times> 'v world" where
  "clean_data lib hw =
     clean_files lib (data (fst hw)) (fst hw, print ''Cleaning data...'' (snd hw))"

subsection \<open>\<open>vectorize_data\<close> and \<open>load_vectorized_data\<close>\<close>

fun reload_cleaned :: "(string \<times> string) list \<Rightarrow> (string \<times> string) list \<Rightarrow> (string \<times> string) list" where
  \<comment> \<open>The fallback of \<open>vectorize_data\<close>: every file of the cleaned-data folder is read
      back, its stem being the title.\<close>
  "reload_cleaned d [] = d"
| "reload_cleaned d ((file, txt) # files) = reload_cleaned (dict_set d (path_stem file) txt) files"

fun embed_items ::
  "(string \<Rightarrow> 'v) \<Rightarrow> (string \<times> 'v) list \<Rightarrow> (string \<times> string) list \<Rightarrow> (string \<times> 'v) list" where
  \<comment> \<open>\<open>for title, text in self.data_dict.items()\<close>\<close>
  "embed_items embed_text vd [] = vd"
| "embed_items embed_text vd ((title, txt) # items) =
     embed_items embed_text
       (if title = ''.gitkeep'' then vd else dict_set vd title (embed_text txt)) items"

definition vectorize_data ::
  "(string \<Rightarrow> 'v) \<Rightarrow> string \<Rightarrow> 'v data_handler \<times> 'v world
   \<Rightarrow> error + 'v data_handler \<times> 'v world" where
  \<comment> \<open>\<open>embed_text\<close> is the embedding collaborator, \<open>json.dump\<close> writes the dictionary as
      the members of one JSON object.\<close>
  "vectorize_data embed_text clean_data_path hw =
     (case hw of (h, w) \<Rightarrow>
        (let h1 = (if data_dict h = []
                   then h\<lparr>data_dict := reload_cleaned (data_dict h) (cleaned w)\<rparr> else h);
             w1 = (if data_dict h = []
                   then print (''Reading '' @ clean_data_path @ ''...'')
                          (print (''Didn't clean data, assuming it's done already and saved. ''
                                  @ ''Loading data...'') w)
                   else w)
         in if data_dict h1 = [] then Inl ValueError
            else (let vd = embed_items embed_text (vectorized_data h1) (data_dict h1)
                  in Inr (h1\<lparr>vectorized_data := vd\<rparr>,
                          (print ''Vectorizing data...'' w1)\<lparr>artifact := Some vd\<rparr>))))"

definition json_object :: "(string \<times> 'v) list \<Rightarrow> (string \<times> 'v) list" where
  \<comment> \<open>The dictionary \<open>json.load\<close> builds from the members of an object; a repeated
      name keeps its last value.\<close>
  "json_object members = foldl (\<lambda>d (k, v). dict_set d k v) [] members"

definition load_vectorized_data ::
  "'v data_handler \<times> 'v world \<Rightarrow> error + 'v data_handler \<times> 'v world" where
  "load_vectorized_data hw =
     (case hw of (h, w) \<Rightarrow>
        (case artifact w of
           None \<Rightarrow> Inl FileNotFoundError
         | Some members \<Rightarrow> Inr (h\<lparr>vectorized_data := json_object members\<rparr>, w)))"

section \<open>The query loop\<close>

text \<open>
  What \<open>vector_db.search\<close> may return: a \<open>dict\<close>, an object that is no \<open>dict\<close> but has
  an \<open>items()\<close> method, or an object without one (a list, \<open>None\<close>).
\<close>

datatype context_result = Dict "(string \<times> string) list" | ItemsView "(string \<times> string) list" | NoItems

text \<open>
  The collaborators of the loop: whether \<open>ollama\<close> is on the path, the vector search,
  whether \<open>ensure_model\<close> succeeds, the chunks the model endpoint streams for a prompt
  (with the message of the request exception that cut the stream, if one did), and
  \<open>SYSTEM_PROMPT_TEMPLATE.format\<close> as a function of the prompt and the formatted sources.
\<close>

record collaborators =
  ollama_installed :: bool
  search :: "string \<Rightarrow> context_result"
  model_available :: bool
  post_generate :: "string \<Rightarrow> string list \<times> string option"
  system_prompt_template :: "string \<Rightarrow> string \<Rightarrow> string"

definition source_name :: "string \<Rightarrow> error + string" where
  \<comment> \<open>\<open>title.split("_", 1)[1]\<close>\<close>
  "source_name title =
     (case split_once CHR ''_'' title of
        a # b # _ \<Rightarrow> Inr b
      | _ \<Rightarrow> Inl IndexError)"

fun source_names :: "string list \<Rightarrow> error + string list" where
  \<comment> \<open>\<open>[title.split("_", 1)[1] for title in ...]\<close>\<close>
  "source_names [] = Inr []"
| "source_names (title # titles) =
     (case source_name title of
        Inl e \<Rightarrow> Inl e
      | Inr n \<Rightarrow> (case source_names titles of Inl e \<Rightarrow> Inl e | Inr ns \<Rightarrow> Inr (n # ns)))"

fun join :: "string \<Rightarrow> string list \<Rightarrow> string" where
  \<comment> \<open>\<open>sep.join(xs)\<close>\<close>
  "join sep [] = []"
| "join sep [x] = x"
| "join sep (x # y # ys) = x @ sep @ join sep (y # ys)"

definition build_system_prompt ::
  "collaborators \<Rightarrow> string \<Rightarrow> (string \<times> string) list \<Rightarrow> string" where
  "build_system_prompt env prompt sources =
     system_prompt_template env prompt
       (join [newline, newline]
          (map (\<lambda>(name, content). ''Source '' @ name @ '' says ...'' @ content @ ''...'') sources))"

definition llm :: "collaborators \<Rightarrow> string \<Rightarrow> error + string list" where
  \<comment> \<open>What running the generator \<open>llm(prompt)\<close> to its end writes: its own messages
      and the chunks the loop prints.\<close>
  "llm env prompt =
     (if \<not> model_available env then Inl RuntimeError
      else (case post_generate env prompt of
              (chunks, None) \<Rightarrow> Inr (''LLM is preparing it's response...'' # chunks)
            | (chunks, Some e) \<Rightarrow>
                Inr (''LLM is preparing it's response...'' # chunks
                     @ [''Error contacting Ollama at http://localhost:11434: '' @ e,
                        ''[LLM Error: Could not get a response]''])))"

definition context_items :: "context_result \<Rightarrow> error + (string \<times> string) list" where
  \<comment> \<open>\<open>context_results.items()\<close>\<close>
  "context_items c =
     (case c of Dict items \<Rightarrow> Inr items | ItemsView items \<Rightarrow> Inr items | NoItems \<Rightarrow> Inl AttributeError)"

definition is_dict :: "context_result \<Rightarrow> bool" where
  \<comment> \<open>\<open>isinstance(context_results, dict)\<close>\<close>
  "is_dict c = (case c of Dict _ \<Rightarrow> True | _ \<Rightarrow> False)"

fun print_sources :: "(string \<times> string) list \<Rightarrow> string list \<Rightarrow> error + string list" where
  \<comment> \<open>The first loop of a turn; the second argument is what was printed so far, one
      entry for each call of \<open>print\<close>.\<close>
  "print_sources [] printed = Inr printed"
| "print_sources ((title, txt) # items) printed =
     (case source_name title of
        Inl e \<Rightarrow> Inl e
      | Inr n \<Rightarrow> print_sources items (printed @ [''Source Name: '' @ n, txt, [newline]]))"

definition list_set :: "string list \<Rightarrow> string list" where
  \<comment> \<open>\<open>list(set(xs))\<close>: each element once; Python fixes no order, the order of first
      occurrence stands for it.\<close>
  "list_set xs = remdups xs"

definition references :: "(string \<times> string) list \<Rightarrow> error + string list" where
  \<comment> \<open>\<open>references\<close> as the loop computes it from \<open>context_results.keys()\<close>.\<close>
  "references items =
     (case source_names (map fst items) of
        Inl e \<Rightarrow> Inl e
      | Inr reference_list \<Rightarrow> Inr (list_set reference_list))"

definition answer ::
  "collaborators \<Rightarrow> string \<Rightarrow> (string \<times> string) list \<Rightarrow> string list \<Rightarrow> error + string list" where
  \<comment> \<open>The rest of a turn once the context is known to be a \<open>dict\<close>: the prompt, the
      streamed chunks, the references.\<close>
  "answer env query items printed =
     (case source_names (map fst items) of
        Inl e \<Rightarrow> Inl e
      | Inr names \<Rightarrow>
          (let prompt = build_system_prompt env query (zip names (map snd items))
           in (case llm env prompt of
                 Inl e \<Rightarrow> Inl e
               | Inr chunks \<Rightarrow>
                   (case references items of
                      Inl e \<Rightarrow> Inl e
                    | Inr refs \<Rightarrow>
                        Inr (printed @ [''Prompt: '' @ prompt] @ chunks
                             @ [[newline, newline] @ ''References pulled:'']
                             @ map (\<lambda>ref. ''- '' @ ref) refs
                             @ [[newline]])))))"

definition query_turn :: "collaborators \<Rightarrow> string \<Rightarrow> string list \<Rightarrow> error + string list" where
  \<comment> \<open>One pass through the body of the loop after the query was read: \<open>Inl\<close> is the
      exception that leaves the loop, \<open>Inr\<close> what was printed when the turn ended.\<close>
  "query_turn env query printed =
     (let context_results = search env query
      in (case context_items context_results of
            Inl e \<Rightarrow> Inl e
          | Inr items \<Rightarrow>
              (case print_sources items printed of
                 Inl e \<Rightarrow> Inl e
               | Inr p1 \<Rightarrow>
                   if is_dict context_results then answer env query items p1
                   else Inr (p1 @ [''Invalid context format from vector DB. ''
                                   @ ''Expected list of dicts.'']))))"

fun query_loop :: "collaborators \<Rightarrow> string list \<Rightarrow> string list \<Rightarrow> error + string list" where
  \<comment> \<open>\<open>while True\<close> over the lines standard input still holds; \<open>input\<close> raises at the
      end of the input.\<close>
  "query_loop env [] printed = Inl EOFError"
| "query_loop env (line # lines) printed =
     (let query = strip line;
          p0 = printed @ [''Enter your question (or type 'q' to quit): '']
      in if lower query = ''q'' then Inr (p0 @ [''Exiting...''])
         else (case query_turn env query p0 of
                 Inl e \<Rightarrow> Inl e
               | Inr p1 \<Rightarrow> query_loop env lines p1))"

definition set_up_and_run_LLM :: "collaborators \<Rightarrow> string list \<Rightarrow> error + string list" where
  "set_up_and_run_LLM env lines =
     (if \<not> ollama_installed env then Inl EnvironmentError else query_loop env lines [])"

section \<open>The specification's words\<close>


definition after_first_underscore :: "string \<Rightarrow> string" where
  \<comment> \<open>The substring after the first underscore of a composite id.\<close>
  "after_first_underscore cid = tl (dropWhile (\<lambda>c. c \<noteq> CHR ''_'') cid)"

definition qualifying_sec :: "xml \<Rightarrow> bool" where
  \<comment> \<open>A section that declares a \<open>sec-type\<close> other than the excluded one.\<close>
  "qualifying_sec sec =
     (case map_of (attrib sec) ''sec-type'' of
        None \<Rightarrow> False
      | Some t \<Rightarrow> t \<noteq> ''Continuing Education Activity'')"

definition sec_text :: "xml \<Rightarrow> string" where
  \<comment> \<open>The texts of the direct \<open>title\<close> and \<open>p\<close> children that have one, each followed
      by a newline, in document order.\<close>
  "sec_text sec =
     concat (map (\<lambda>e. the (elem_text e) @ [newline])
               (filter (\<lambda>e. (tag e = ''title'' \<or> tag e = ''p'') \<and> truthy (elem_text e))
                  (children sec)))"

definition nxml_text :: "xml \<Rightarrow> string" where
  "nxml_text root = concat (map sec_text (filter qualifying_sec (findall_sec root)))"

definition claimed_sec_text :: "xml \<Rightarrow> string" where
  \<comment> \<open>The text of every direct \<open>title\<close> and \<open>p\<close> child, each followed by a newline; an
      element without text of its own has the empty text.\<close>
  "claimed_sec_text sec =
     concat (map (\<lambda>e. (case elem_text e of None \<Rightarrow> [] | Some s \<Rightarrow> s) @ [newline])
               (filter (\<lambda>e. tag e = ''title'' \<or> tag e = ''p'') (children sec)))"

definition claimed_nxml_text :: "xml \<Rightarrow> string" where
  "claimed_nxml_text root =
     concat (map claimed_sec_text (filter qualifying_sec (findall_sec root)))"



section \<open>Example documents\<close>

definition small_chapter :: "string \<Rightarrow> string \<Rightarrow> xml" where
  \<comment> \<open>A small chapter: a title and one typed section holding one paragraph.\<close>
  "small_chapter title para =
     Element ''book-part'' [] None
       [Element ''title-group'' [] None [Element ''title'' [] (Some title) []],
        Element ''body'' [] None
          [Element ''sec'' [(''sec-type'', ''Introduction'')] None
             [Element ''p'' [] (Some para) []]]]"

definition example_nxml :: xml where
  \<comment> \<open>A chapter with an excluded section, a typed section (holding a nested untyped
      one) and a list that is neither a title nor a paragraph.\<close>
  "example_nxml =
     Element ''book-part'' [] None
       [Element ''title-group'' [] None [Element ''title'' [] (Some ''Asthma'') []],
        Element ''body'' [] None
          [Element ''sec'' [(''sec-type'', ''Continuing Education Activity'')] None
             [Element ''title'' [] (Some ''Continuing Education Activity'') [],
              Element ''p'' [] (Some ''Objectives.'') []],
           Element ''sec'' [(''id'', ''s2''), (''sec-type'', ''Introduction'')] None
             [Element ''title'' [] (Some ''Introduction'') [],
              Element ''p'' [] (Some ''Asthma is common.'') [],
              Element ''list'' [] None [Element ''p'' [] (Some ''item'') []],
              Element ''p'' [] None [Element ''bold'' [] (Some ''Note'') []],
              Element ''sec'' [] None [Element ''p'' [] (Some ''untyped'') []]]]]"

definition markup_chapter :: xml where
  \<comment> \<open>A chapter whose title is set in italics, with a paragraph that is all bold and a
      paragraph that starts with plain text.\<close>
  "markup_chapter =
     Element ''book-part'' [] None
       [Element ''title-group'' [] None
          [Element ''title'' [] None [Element ''italic'' [] (Some ''Asthma'') []]],
        Element ''body'' [] None
          [Element ''sec'' [(''sec-type'', ''Introduction'')] None
             [Element ''title'' [] (Some ''Introduction'') [],
              Element ''p'' [] None [Element ''bold'' [] (Some ''Asthma'') []],
              Element ''p'' [] (Some ''Asthma is '') [Element ''bold'' [] (Some ''common'') []]]]]"

definition bold_chapter :: xml where
  \<comment> \<open>A chapter whose only paragraph is all bold.\<close>
  "bold_chapter =
     Element ''book-part'' [] None
       [Element ''title-group'' [] None [Element ''title'' [] (Some ''Asthma'') []],
        Element ''body'' [] None
          [Element ''sec'' [(''sec-type'', ''Introduction'')] None
             [Element ''p'' [] None [Element ''bold'' [] (Some ''Asthma'') []]]]]"

definition example_readers :: readers where
  "example_readers =
     \<lparr>fitz_pages = (\<lambda>f. None),
      read_text = (\<lambda>f. if f = ''data/empty.txt'' then Some [] else None),
      docx2txt_process = (\<lambda>f. None),
      pptx_slides = (\<lambda>f. None),
      et_parse = (\<lambda>f. if f = ''data/asthma.nxml'' then Some example_nxml
                        else if f = ''data/a.nxml'' then Some (small_chapter ''A/B'' ''one'')
                        else if f = ''data/b.nxml'' then Some (small_chapter ''AB'' ''two'')
                        else if f = ''data/untitled.nxml'' then Some (Element ''book-part'' [] None [])
                        else None)\<rparr>"

definition empty_world :: "'v world" where
  "empty_world = \<lparr>disk = {}, cleaned = [], artifact = None, out = []\<rparr>"

definition example_collaborators :: collaborators where
  \<comment> \<open>A vector store that answers every query with the same two entries, and a model
      that answers every prompt in one chunk.\<close>
  "example_collaborators =
     \<lparr>ollama_installed = True,
      search = (\<lambda>query. Dict [(''42_Diabetes Overview'', ''a''), (''7_Diabetes Overview'', ''b'')]),
      model_available = True,
      post_generate = (\<lambda>prompt. ([''Fine.''], None)),
      system_prompt_template = (\<lambda>prompt sources. prompt)\<rparr>"

section \<open>Properties\<close>


lemma strip_idem: "strip (strip s) = strip s"
proof -
  have a: "dropWhile is_space (dropWhile is_space xs) = dropWhile is_space xs" for xs
    by (induction xs) auto
  have b: "dropWhile is_space (rev (dropWhile is_space (rev ys))) = rev (dropWhile is_space (rev ys))"
    if "ys = [] \<or> \<not> is_space (hd ys)" for ys
  proof (cases ys)
    case Nil
    then show ?thesis by simp
  next
    case (Cons y ys')
    with that have ny: "\<not> is_space y" by simp
    have "rev ys = rev ys' @ [y]" using Cons by simp
    then have "dropWhile is_space (rev ys) = dropWhile is_space (rev ys') @ [y]
               \<or> dropWhile is_space (rev ys) = [y]"
      by (simp add: dropWhile_append ny)
    then have "hd (rev (dropWhile is_space (rev ys))) = y"
      by auto
    moreover have "rev (dropWhile is_space (rev ys)) \<noteq> []"
      using \<open>rev ys = rev ys' @ [y]\<close> ny by (auto simp: dropWhile_append)
    ultimately show ?thesis using ny
      by (cases "rev (dropWhile is_space (rev ys))") auto
  qed
  have c: "dropWhile is_space s = [] \<or> \<not> is_space (hd (dropWhile is_space s))"
    by (metis hd_dropWhile)
  show ?thesis
    unfolding strip_def using b [OF c] by (simp add: a)
qed

lemma strip_subset: "set (strip s) \<subseteq> set s"
proof
  fix x assume "x \<in> set (strip s)"
  then have "x \<in> set (dropWhile is_space (rev (dropWhile is_space s)))"
    by (simp add: strip_def)
  then have "x \<in> set (rev (dropWhile is_space s))" by (rule set_dropWhileD)
  then have "x \<in> set (dropWhile is_space s)" by simp
  then show "x \<in> set s" by (rule set_dropWhileD)
qed

lemma strip_sublist_all: "list_all P s \<Longrightarrow> list_all P (strip s)"
  using strip_subset [of s] by (auto simp: list_all_iff)

lemma strip_safe:
  assumes "s = [] \<or> (\<not> is_space (hd s) \<and> \<not> is_space (last s))"
  shows "strip s = s"
proof (cases "s = []")
  case True
  then show ?thesis by (simp add: strip_def)
next
  case False
  with assms have h: "\<not> is_space (hd s)" and l: "\<not> is_space (last s)" by auto
  have 1: "dropWhile is_space s = s"
    using False h by (simp add: dropWhile_eq_self_iff)
  have "hd (rev s) = last s" using False by (simp add: hd_rev)
  then have 2: "dropWhile is_space (rev s) = rev s"
    using False l by (simp add: dropWhile_eq_self_iff)
  show ?thesis by (simp add: strip_def 1 2)
qed






subsection \<open>Title sanitization\<close>

text \<open>
  C8. Removing the characters \<open><>:"/\|?*\<close> from a title and trimming the whitespace
  around it, as \<open>clean_data\<close> does, is idempotent: done twice it gives what it gives done
  once. On a title that is already safe (none of these characters, no whitespace at either
  end) it changes nothing.
\<close>

theorem sanitize_title_idempotent:
  "sanitize_title (sanitize_title t) = sanitize_title t
   \<and> (safe_title t \<longrightarrow> sanitize_title t = t)"
proof
  let ?ok = "\<lambda>c. c \<notin> set invalid_chars"
  have "set (sanitize_title t) \<subseteq> set (filter ?ok t)"
    unfolding sanitize_title_def by (rule strip_subset)
  then have "\<forall>c \<in> set (sanitize_title t). ?ok c" by auto
  then have "filter ?ok (sanitize_title t) = sanitize_title t"
    by (simp only: filter_id_conv)
  then have "sanitize_title (sanitize_title t) = strip (sanitize_title t)"
    by (simp only: sanitize_title_def [of "sanitize_title t"])
  also have "\<dots> = sanitize_title t"
    unfolding sanitize_title_def by (rule strip_idem)
  finally show "sanitize_title (sanitize_title t) = sanitize_title t" .
  show "safe_title t \<longrightarrow> sanitize_title t = t"
  proof
    assume s: "safe_title t"
    then have "\<forall>c \<in> set t. ?ok c" by (simp add: safe_title_def list_all_iff)
    then have f: "filter ?ok t = t" by (simp only: filter_id_conv)
    have "strip t = t" using s by (intro strip_safe) (simp add: safe_title_def)
    then show "sanitize_title t = t" by (simp only: sanitize_title_def f)
  qed
qed

theorem sanitize_title_idempotent_witness:
  "safe_title ''Diabetes Overview''
   \<and> sanitize_title ''Diabetes Overview'' = ''Diabetes Overview''
   \<and> sanitize_title (sanitize_title '' a/b: c? '') = sanitize_title '' a/b: c? ''"
proof -
  have s: "safe_title ''Diabetes Overview''"
    by (simp add: safe_title_def invalid_chars_def is_space_def)
  from sanitize_title_idempotent [of "''Diabetes Overview''"] s
  have "sanitize_title ''Diabetes Overview'' = ''Diabetes Overview''" by blast
  moreover from sanitize_title_idempotent [of "'' a/b: c? ''"]
  have "sanitize_title (sanitize_title '' a/b: c? '') = sanitize_title '' a/b: c? ''" by blast
  ultimately show ?thesis using s by blast
qed

subsection \<open>Discovery\<close>



subsection \<open>The query loop\<close>

lemma distinct_count_one: "distinct xs \<Longrightarrow> x \<in> set xs \<Longrightarrow> count_list xs x = 1"
  by (induction xs) auto

lemma source_name_underscore:
  "CHR ''_'' \<in> set t \<Longrightarrow> source_name t = Inr (after_first_underscore t)"
  by (simp add: source_name_def split_once_def after_first_underscore_def)

lemma source_name_no_underscore:
  "CHR ''_'' \<notin> set t \<Longrightarrow> source_name t = Inl IndexError"
  by (simp add: source_name_def split_once_def)

lemma source_names_underscore:
  "list_all (\<lambda>t. CHR ''_'' \<in> set t) ts \<Longrightarrow> source_names ts = Inr (map after_first_underscore ts)"
  by (induction ts) (simp_all add: source_name_underscore)

lemma print_sources_underscore:
  "list_all (\<lambda>(cid, txt). CHR ''_'' \<in> set cid) items \<Longrightarrow>
   print_sources items printed =
     Inr (printed @ concat (map (\<lambda>(cid, txt). [''Source Name: '' @ after_first_underscore cid, txt, [newline]]) items))"
proof (induction items arbitrary: printed)
  case Nil
  then show ?case by simp
next
  case (Cons it items)
  obtain cid body where it: "it = (cid, body)" by (cases it)
  with Cons.prems have u: "CHR ''_'' \<in> set cid"
    and r: "list_all (\<lambda>(cid, txt). CHR ''_'' \<in> set cid) items" by simp_all
  show ?case
    using Cons.IH [OF r] by (simp add: it source_name_underscore [OF u])
qed

lemma query_turn_no_items:
  "search env query = NoItems \<Longrightarrow> query_turn env query printed = Inl AttributeError"
  by (simp add: query_turn_def context_items_def)

lemma llm_available:
  "model_available env \<Longrightarrow> \<exists>chunks. llm env prompt = Inr chunks"
  by (cases "post_generate env prompt") (auto simp: llm_def split: option.splits)

lemma references_underscore:
  assumes "list_all (\<lambda>(cid, txt). CHR ''_'' \<in> set cid) items"
  shows "\<exists>refs. references items = Inr refs \<and> distinct refs
           \<and> set refs = after_first_underscore ` fst ` set items
           \<and> (\<forall>n \<in> after_first_underscore ` fst ` set items. count_list refs n = 1)"
proof -
  have "list_all (\<lambda>t. CHR ''_'' \<in> set t) (map fst items)"
    using assms by (auto simp: list_all_iff)
  then have sn: "source_names (map fst items) = Inr (map after_first_underscore (map fst items))"
    by (rule source_names_underscore)
  let ?refs = "remdups (map after_first_underscore (map fst items))"
  have 1: "references items = Inr ?refs" by (simp add: references_def sn list_set_def)
  have 2: "distinct ?refs" by simp
  have 3: "set ?refs = after_first_underscore ` fst ` set items" by (simp add: image_image)
  have 4: "\<forall>n \<in> after_first_underscore ` fst ` set items. count_list ?refs n = 1"
  proof
    fix n assume "n \<in> after_first_underscore ` fst ` set items"
    then have "n \<in> set ?refs" by (simp only: 3)
    with 2 show "count_list ?refs n = 1" by (rule distinct_count_one)
  qed
  show ?thesis using 1 2 3 4 by blast
qed

lemma query_turn_dict:
  assumes s: "search env query = Dict items"
    and u: "list_all (\<lambda>(cid, txt). CHR ''_'' \<in> set cid) items"
    and l: "llm env (build_system_prompt env query
                 (zip (map after_first_underscore (map fst items)) (map snd items))) = Inr chunks"
    and r: "references items = Inr refs"
  shows "query_turn env query printed =
     Inr (printed
          @ concat (map (\<lambda>(cid, txt).
              [''Source Name: '' @ after_first_underscore cid, txt, [newline]]) items)
          @ [''Prompt: '' @ build_system_prompt env query
                 (zip (map after_first_underscore (map fst items)) (map snd items))]
          @ chunks
          @ [[newline, newline] @ ''References pulled:'']
          @ map (\<lambda>ref. ''- '' @ ref) refs
          @ [[newline]])"
proof -
  have "list_all (\<lambda>t. CHR ''_'' \<in> set t) (map fst items)"
    using u by (auto simp: list_all_iff)
  then have sn: "source_names (map fst items) = Inr (map after_first_underscore (map fst items))"
    by (rule source_names_underscore)
  have a: "answer env query items p =
     Inr (p @ [''Prompt: '' @ build_system_prompt env query
                 (zip (map after_first_underscore (map fst items)) (map snd items))]
          @ chunks
          @ [[newline, newline] @ ''References pulled:'']
          @ map (\<lambda>ref. ''- '' @ ref) refs
          @ [[newline]])" for p
    using l r by (simp add: answer_def sn Let_def)
  show ?thesis
    by (simp add: query_turn_def s context_items_def is_dict_def
          print_sources_underscore [OF u] a Let_def)
qed

text \<open>
  C9. In a turn of the query loop whose context is a dictionary with an underscore in
  every composite id, and with the model available, the loop prints for each entry, in
  order, its source name, which is the part of the id after the first underscore
  (\<open>42_Diabetes Overview\<close> is shown as \<open>Diabetes Overview\<close>), its text and a blank
  line; then the prompt and what the stream writes; then, after the stream, the heading
  of the references and one line for each reference. The references are these names
  without repetition: every name occurs exactly once, however many entries share it. The
  loop then goes on with the next line of input.
\<close>

theorem query_turn_displays_sources:
  assumes "search env (strip line) = Dict items"
    and "model_available env"
    and "list_all (\<lambda>(cid, txt). CHR ''_'' \<in> set cid) items"
    and "lower (strip line) \<noteq> ''q''"
  shows "(\<exists>chunks refs shown.
            llm env (build_system_prompt env (strip line)
                 (zip (map after_first_underscore (map fst items)) (map snd items))) = Inr chunks
          \<and> distinct refs
          \<and> set refs = after_first_underscore ` fst ` set items
          \<and> (\<forall>n \<in> after_first_underscore ` fst ` set items. count_list refs n = 1)
          \<and> shown = (printed @ [''Enter your question (or type 'q' to quit): ''])
               @ concat (map (\<lambda>(cid, txt).
                   [''Source Name: '' @ after_first_underscore cid, txt, [newline]]) items)
               @ [''Prompt: '' @ build_system_prompt env (strip line)
                    (zip (map after_first_underscore (map fst items)) (map snd items))]
               @ chunks
               @ [[newline, newline] @ ''References pulled:'']
               @ map (\<lambda>ref. ''- '' @ ref) refs
               @ [[newline]]
          \<and> query_turn env (strip line)
               (printed @ [''Enter your question (or type 'q' to quit): '']) = Inr shown
          \<and> query_loop env (line # lines) printed = query_loop env lines shown)
         \<and> source_name ''42_Diabetes Overview'' = Inr ''Diabetes Overview''"
proof
  let ?prompt = "build_system_prompt env (strip line)
                 (zip (map after_first_underscore (map fst items)) (map snd items))"
  let ?p0 = "printed @ [''Enter your question (or type 'q' to quit): '']"
  obtain chunks where l: "llm env ?prompt = Inr chunks"
    using llm_available [OF assms(2)] by blast
  obtain refs where r: "references items = Inr refs" and d: "distinct refs"
    and e: "set refs = after_first_underscore ` fst ` set items"
    and c: "\<forall>n \<in> after_first_underscore ` fst ` set items. count_list refs n = 1"
    using references_underscore [OF assms(3)] by blast
  define shown where "shown = ?p0
               @ concat (map (\<lambda>(cid, txt).
                   [''Source Name: '' @ after_first_underscore cid, txt, [newline]]) items)
               @ [''Prompt: '' @ ?prompt]
               @ chunks
               @ [[newline, newline] @ ''References pulled:'']
               @ map (\<lambda>ref. ''- '' @ ref) refs
               @ [[newline]]"
  have t: "query_turn env (strip line) ?p0 = Inr shown"
    unfolding shown_def by (rule query_turn_dict [OF assms(1) assms(3) l r])
  have q: "query_loop env (line # lines) printed = query_loop env lines shown"
    using assms(4) t by (simp add: Let_def)
  show "\<exists>chunks refs shown.
            llm env ?prompt = Inr chunks
          \<and> distinct refs
          \<and> set refs = after_first_underscore ` fst ` set items
          \<and> (\<forall>n \<in> after_first_underscore ` fst ` set items. count_list refs n = 1)
          \<and> shown = ?p0
               @ concat (map (\<lambda>(cid, txt).
                   [''Source Name: '' @ after_first_underscore cid, txt, [newline]]) items)
               @ [''Prompt: '' @ ?prompt]
               @ chunks
               @ [[newline, newline] @ ''References pulled:'']
               @ map (\<lambda>ref. ''- '' @ ref) refs
               @ [[newline]]
          \<and> query_turn env (strip line) ?p0 = Inr shown
          \<and> query_loop env (line # lines) printed = query_loop env lines shown"
    using l d e c shown_def t q by blast
next
  show "source_name ''42_Diabetes Overview'' = Inr ''Diabetes Overview''"
    by (simp add: source_name_def split_once_def)
qed

theorem query_turn_displays_sources_witness:
  "search example_collaborators (strip '' what? '')
     = Dict [(''42_Diabetes Overview'', ''a''), (''7_Diabetes Overview'', ''b'')]
   \<and> model_available example_collaborators
   \<and> list_all (\<lambda>(cid, txt). CHR ''_'' \<in> set cid)
        [(''42_Diabetes Overview'', ''a''), (''7_Diabetes Overview'', ''b'')]
   \<and> lower (strip '' what? '') \<noteq> ''q''
   \<and> (\<exists>refs. distinct refs \<and> set refs = {''Diabetes Overview''}
        \<and> query_loop example_collaborators ['' what? '', ''q''] []
            = Inr ([''Enter your question (or type 'q' to quit): '',
                    ''Source Name: Diabetes Overview'', ''a'', [newline],
                    ''Source Name: Diabetes Overview'', ''b'', [newline],
                    ''Prompt: what?'',
                    ''LLM is preparing it's response...'', ''Fine.'',
                    [newline, newline] @ ''References pulled:'']
                   @ map (\<lambda>ref. ''- '' @ ref) refs
                   @ [[newline], ''Enter your question (or type 'q' to quit): '',
                      ''Exiting...'']))"
proof -
  let ?items = "[(''42_Diabetes Overview'', ''a''), (''7_Diabetes Overview'', ''b'')]"
  have h1: "search example_collaborators (strip '' what? '') = Dict ?items"
    by (simp add: example_collaborators_def)
  have h2: "model_available example_collaborators" by (simp add: example_collaborators_def)
  have h3: "list_all (\<lambda>(cid, txt). CHR ''_'' \<in> set cid) ?items" by simp
  have s: "strip '' what? '' = ''what?''" by code_simp
  have h4: "lower (strip '' what? '') \<noteq> ''q''" by code_simp
  have a: "after_first_underscore ''42_Diabetes Overview'' = ''Diabetes Overview''"
    by (simp add: after_first_underscore_def)
  have b: "after_first_underscore ''7_Diabetes Overview'' = ''Diabetes Overview''"
    by (simp add: after_first_underscore_def)
  have pr: "build_system_prompt example_collaborators q srcs = q" for q srcs
    by (simp add: build_system_prompt_def example_collaborators_def)
  have ll: "llm example_collaborators q = Inr [''LLM is preparing it's response...'', ''Fine.'']"
    for q
    by (simp add: llm_def example_collaborators_def)
  have q: "query_loop example_collaborators [''q''] p
             = Inr (p @ [''Enter your question (or type 'q' to quit): '', ''Exiting...''])" for p
  proof -
    have "lower (strip ''q'') = ''q''" by code_simp
    then show ?thesis by (simp add: Let_def)
  qed
  note t = query_turn_displays_sources [OF h1 h2 h3 h4, of "[]" "[''q'']", THEN conjunct1]
  then obtain chunks refs shown where
        l: "llm example_collaborators (build_system_prompt example_collaborators (strip '' what? '')
                 (zip (map after_first_underscore (map fst ?items)) (map snd ?items))) = Inr chunks"
    and d: "distinct refs"
    and e: "set refs = after_first_underscore ` fst ` set ?items"
    and sh: "shown = ([] @ [''Enter your question (or type 'q' to quit): ''])
               @ concat (map (\<lambda>(cid, txt).
                   [''Source Name: '' @ after_first_underscore cid, txt, [newline]]) ?items)
               @ [''Prompt: '' @ build_system_prompt example_collaborators (strip '' what? '')
                    (zip (map after_first_underscore (map fst ?items)) (map snd ?items))]
               @ chunks
               @ [[newline, newline] @ ''References pulled:'']
               @ map (\<lambda>ref. ''- '' @ ref) refs
               @ [[newline]]"
    and ql: "query_loop example_collaborators ['' what? '', ''q''] []
               = query_loop example_collaborators [''q''] shown"
    by (elim exE conjE) (rule that; assumption)
  have c: "chunks = [''LLM is preparing it's response...'', ''Fine.'']"
    using l by (simp only: ll sum.inject)
  have e': "set refs = {''Diabetes Overview''}" using e by (simp add: a b)
  have sh': "shown = [''Enter your question (or type 'q' to quit): '',
                    ''Source Name: Diabetes Overview'', ''a'', [newline],
                    ''Source Name: Diabetes Overview'', ''b'', [newline],
                    ''Prompt: what?'',
                    ''LLM is preparing it's response...'', ''Fine.'',
                    [newline, newline] @ ''References pulled:'']
                   @ map (\<lambda>ref. ''- '' @ ref) refs @ [[newline]]"
    unfolding sh pr c s by (simp add: a b)
  have "query_loop example_collaborators ['' what? '', ''q''] []
            = Inr ([''Enter your question (or type 'q' to quit): '',
                    ''Source Name: Diabetes Overview'', ''a'', [newline],
                    ''Source Name: Diabetes Overview'', ''b'', [newline],
                    ''Prompt: what?'',
                    ''LLM is preparing it's response...'', ''Fine.'',
                    [newline, newline] @ ''References pulled:'']
                   @ map (\<lambda>ref. ''- '' @ ref) refs
                   @ [[newline], ''Enter your question (or type 'q' to quit): '',
                      ''Exiting...''])"
    unfolding ql q sh' by simp
  with d e' have "distinct refs \<and> set refs = {''Diabetes Overview''}
        \<and> query_loop example_collaborators ['' what? '', ''q''] []
            = Inr ([''Enter your question (or type 'q' to quit): '',
                    ''Source Name: Diabetes Overview'', ''a'', [newline],
                    ''Source Name: Diabetes Overview'', ''b'', [newline],
                    ''Prompt: what?'',
                    ''LLM is preparing it's response...'', ''Fine.'',
                    [newline, newline] @ ''References pulled:'']
                   @ map (\<lambda>ref. ''- '' @ ref) refs
                   @ [[newline], ''Enter your question (or type 'q' to quit): '',
                      ''Exiting...''])"
    by (intro conjI)
  then have "\<exists>refs. distinct refs \<and> set refs = {''Diabetes Overview''}
        \<and> query_loop example_collaborators ['' what? '', ''q''] []
            = Inr ([''Enter your question (or type 'q' to quit): '',
                    ''Source Name: Diabetes Overview'', ''a'', [newline],
                    ''Source Name: Diabetes Overview'', ''b'', [newline],
                    ''Prompt: what?'',
                    ''LLM is preparing it's response...'', ''Fine.'',
                    [newline, newline] @ ''References pulled:'']
                   @ map (\<lambda>ref. ''- '' @ ref) refs
                   @ [[newline], ''Enter your question (or type 'q' to quit): '',
                      ''Exiting...''])"
    by (rule exI [where x = refs])
  with h1 h2 h3 h4 show ?thesis by (intro conjI)
qed

text \<open>
  C1. The claim is that a context result that is not a mapping ends the turn with a
  message and the loop goes on. The loop calls \<open>context_results.items()\<close> before it tests
  \<open>isinstance(context_results, dict)\<close>, so for a result without \<open>items\<close> (a list, say)
  the \<open>AttributeError\<close> leaves the loop: the first query of the session below ends it.
\<close>

theorem query_loop_raises_on_non_mapping:
  "set_up_and_run_LLM
     \<lparr>ollama_installed = True, search = (\<lambda>query. NoItems), model_available = m,
      post_generate = g, system_prompt_template = t\<rparr>
     (''hello'' # lines) = Inl AttributeError"
proof -
  have s: "strip ''hello'' = ''hello''" by (simp add: strip_def is_space_def)
  have l: "lower ''hello'' \<noteq> ''q''" by (simp add: lower_def)
  show ?thesis
    by (simp add: set_up_and_run_LLM_def s l query_turn_no_items)
qed

subsection \<open>Discovery and the case of the extension\<close>

text \<open>
  C2. The claim is that a file is kept when its extension is a supported one, compared
  without regard to case. \<open>load_data\<close> looks the extension up in the lower-case list as
  it is written, so \<open>report.PDF\<close> is deleted from disk, although its extension in lower
  case is supported and \<open>clean_data\<close> would have sent a path ending in \<open>.PDF\<close> to the PDF
  extractor.
\<close>

theorem load_data_deletes_upper_case_pdf:
  "load_data [(''data'', [''report.PDF''])]
     (init_handler, \<lparr>disk = {''data/report.PDF''}, cleaned = [],
                     artifact = (None :: (string \<times> unit) list option), out = []\<rparr>)
   = (init_handler,
      \<lparr>disk = {}, cleaned = [], artifact = None,
       out = [''Loading data...'', ''Reading data...'',
              ''File report.PDF is not in the accepted file types. Deleting...'']\<rparr>)
   \<and> lower (ext_of ''report.PDF'') \<in> set file_types
   \<and> dispatch lib ''data/report.PDF'' w = Some (clean_pdf lib ''data/report.PDF'' w)"
proof (intro conjI)
  have e: "ext_of ''report.PDF'' = ''PDF''" by (simp add: ext_of_def)
  have c: "classify ''report.PDF'' = Delete" by (simp add: classify_def e file_types_def)
  show "load_data [(''data'', [''report.PDF''])]
     (init_handler, \<lparr>disk = {''data/report.PDF''}, cleaned = [],
                     artifact = (None :: (string \<times> unit) list option), out = []\<rparr>)
   = (init_handler,
      \<lparr>disk = {}, cleaned = [], artifact = None,
       out = [''Loading data...'', ''Reading data...'',
              ''File report.PDF is not in the accepted file types. Deleting...'']\<rparr>)"
    by (simp add: load_data_def load_file_def c print_def os_path_join_def)
  show "lower (ext_of ''report.PDF'') \<in> set file_types"
    by code_simp
  have e2: "ext_of ''data/report.PDF'' = ''PDF''" by (simp add: ext_of_def)
  show "dispatch lib ''data/report.PDF'' w = Some (clean_pdf lib ''data/report.PDF'' w)"
    by (simp add: dispatch_def e2)
qed

subsection \<open>Vectorizing and loading\<close>

lemma dict_set_keys: "fst ` set (dict_set d k v) = insert k (fst ` set d)"
proof (induction d)
  case Nil
  then show ?case by simp
next
  case (Cons a d)
  obtain k' v' where a: "a = (k', v')" by (cases a)
  show ?case using Cons by (cases "k' = k") (simp_all add: a insert_commute)
qed

lemma dict_set_distinct: "distinct (map fst d) \<Longrightarrow> distinct (map fst (dict_set d k v))"
proof (induction d)
  case Nil
  then show ?case by simp
next
  case (Cons a d)
  obtain k' v' where a: "a = (k', v')" by (cases a)
  show ?case using Cons by (cases "k' = k") (simp_all add: a dict_set_keys)
qed

lemma dict_set_map_of: "map_of (dict_set d k v) = (map_of d)(k \<mapsto> v)"
  by (induction d) auto

lemma dict_set_fresh: "k \<notin> fst ` set d \<Longrightarrow> dict_set d k v = d @ [(k, v)]"
  by (induction d) auto

lemma embed_items_keys:
  "fst ` set (embed_items e vd items)
   = fst ` set vd \<union> (fst ` set items - {''.gitkeep''})"
proof (induction items arbitrary: vd)
  case Nil
  then show ?case by simp
next
  case (Cons it items)
  obtain title body where it: "it = (title, body)" by (cases it)
  show ?case
  proof (cases "title = ''.gitkeep''")
    case True
    then show ?thesis using Cons [of vd] by (simp add: it)
  next
    case False
    then show ?thesis using Cons [of "dict_set vd title (e body)"]
      by (simp add: it dict_set_keys) blast
  qed
qed

lemma embed_items_distinct:
  "distinct (map fst vd) \<Longrightarrow> distinct (map fst (embed_items e vd items))"
proof (induction items arbitrary: vd)
  case Nil
  then show ?case by simp
next
  case (Cons it items)
  obtain title body where it: "it = (title, body)" by (cases it)
  show ?case using Cons.prems
    by (cases "title = ''.gitkeep''") (simp_all add: it Cons.IH dict_set_distinct)
qed

lemma json_object_acc:
  "distinct (map fst (acc @ ms)) \<Longrightarrow> foldl (\<lambda>d (k, v). dict_set d k v) acc ms = acc @ ms"
proof (induction ms arbitrary: acc)
  case Nil
  then show ?case by simp
next
  case (Cons m ms)
  obtain k v where m: "m = (k, v)" by (cases m)
  from Cons.prems have fresh: "k \<notin> fst ` set acc" by (auto simp: m)
  from Cons.prems have "distinct (map fst ((acc @ [(k, v)]) @ ms))" by (simp add: m)
  then have "foldl (\<lambda>d (k, v). dict_set d k v) (acc @ [(k, v)]) ms = (acc @ [(k, v)]) @ ms"
    by (rule Cons.IH)
  then show ?case by (simp add: m dict_set_fresh [OF fresh])
qed

lemma json_object_dict: "distinct (map fst ms) \<Longrightarrow> json_object ms = ms"
  using json_object_acc [of "[]" ms] by (simp add: json_object_def)

text \<open>
  C7. On a handler that holds a non-empty title-to-text mapping and has not vectorized
  anything yet, \<open>vectorize_data\<close> succeeds and writes the artifact, and
  \<open>load_vectorized_data\<close>, run on that artifact by any handler, succeeds as well; the keys
  of the mapping it loads are the keys of the title-to-text mapping without
  \<open>.gitkeep\<close>, and the mapping is the one \<open>vectorize_data\<close> built.
\<close>

theorem vectorize_then_load_keys:
  assumes "data_dict h \<noteq> []" and "vectorized_data h = []"
  shows "\<exists>h1 w1. vectorize_data embed_text clean_data_path (h, w) = Inr (h1, w1)
           \<and> (\<exists>h2. load_vectorized_data (h', w1) = Inr (h2, w1)
                 \<and> set (map fst (vectorized_data h2)) = set (map fst (data_dict h)) - {''.gitkeep''}
                 \<and> vectorized_data h2 = vectorized_data h1)"
proof -
  let ?vd = "embed_items embed_text [] (data_dict h)"
  let ?w1 = "(print ''Vectorizing data...'' w)\<lparr>artifact := Some ?vd\<rparr>"
  have v: "vectorize_data embed_text clean_data_path (h, w) = Inr (h\<lparr>vectorized_data := ?vd\<rparr>, ?w1)"
    using assms by (simp add: vectorize_data_def Let_def)
  have d: "distinct (map fst ?vd)" by (rule embed_items_distinct) simp
  have l: "load_vectorized_data (h', ?w1) = Inr (h'\<lparr>vectorized_data := ?vd\<rparr>, ?w1)"
    by (simp add: load_vectorized_data_def print_def json_object_dict [OF d])
  have k: "set (map fst ?vd) = set (map fst (data_dict h)) - {''.gitkeep''}"
    using embed_items_keys [of embed_text "[]" "data_dict h"] by simp
  show ?thesis using v l k by simp
qed

theorem vectorize_then_load_keys_witness:
  "data_dict (init_handler\<lparr>data_dict := [(''Asthma'', ''text''), (''.gitkeep'', [])]\<rparr> :: nat data_handler) \<noteq> []
   \<and> vectorized_data (init_handler\<lparr>data_dict := [(''Asthma'', ''text''), (''.gitkeep'', [])]\<rparr> :: nat data_handler) = []
   \<and> (\<exists>h1 w1. vectorize_data length ''cleaned''
          (init_handler\<lparr>data_dict := [(''Asthma'', ''text''), (''.gitkeep'', [])]\<rparr>,
           \<lparr>disk = {}, cleaned = [], artifact = None, out = []\<rparr>) = Inr (h1, w1)
        \<and> (\<exists>h2. load_vectorized_data (init_handler, w1) = Inr (h2, w1)
              \<and> set (map fst (vectorized_data h2)) = {''Asthma''}))"
proof -
  define h :: "nat data_handler"
    where "h = init_handler\<lparr>data_dict := [(''Asthma'', ''text''), (''.gitkeep'', [])]\<rparr>"
  define w :: "nat world" where "w = \<lparr>disk = {}, cleaned = [], artifact = None, out = []\<rparr>"
  have a: "data_dict h \<noteq> []" by (simp add: h_def)
  have b: "vectorized_data h = []" by (simp add: h_def init_handler_def)
  have ne: "''Asthma'' \<noteq> ''.gitkeep''" by simp
  have c: "set (map fst (data_dict h)) - {''.gitkeep''} = {''Asthma''}"
    using ne by (auto simp: h_def)
  from vectorize_then_load_keys [OF a b, of length "''cleaned''" w init_handler]
  obtain h1 w1 h2 where v: "vectorize_data length ''cleaned'' (h, w) = Inr (h1, w1)"
    and l: "load_vectorized_data (init_handler, w1) = Inr (h2, w1)"
    and k: "set (map fst (vectorized_data h2)) = set (map fst (data_dict h)) - {''.gitkeep''}"
    by blast
  from k c have k': "set (map fst (vectorized_data h2)) = {''Asthma''}" by simp
  have "\<exists>h1 w1. vectorize_data length ''cleaned'' (h, w) = Inr (h1, w1)
        \<and> (\<exists>h2. load_vectorized_data (init_handler, w1) = Inr (h2, w1)
              \<and> set (map fst (vectorized_data h2)) = {''Asthma''})"
    using v l k' by blast
  then show ?thesis using a b unfolding h_def w_def by blast
qed

subsection \<open>NXML extraction\<close>

lemma sec_children_loop_concat:
  "sec_children_loop acc es =
     acc @ concat (map (\<lambda>e. the (elem_text e) @ [newline])
                    (filter (\<lambda>e. (tag e = ''title'' \<or> tag e = ''p'') \<and> truthy (elem_text e)) es))"
  by (induction es arbitrary: acc) auto

lemma sec_loop_concat:
  "sec_loop acc secs = acc @ concat (map sec_text (filter qualifying_sec secs))"
proof (induction secs arbitrary: acc)
  case Nil
  then show ?case by simp
next
  case (Cons sec secs)
  show ?case
  proof (cases "map_of (attrib sec) ''sec-type''")
    case None
    then show ?thesis by (simp add: Cons qualifying_sec_def)
  next
    case (Some t)
    then show ?thesis
      by (simp add: Cons qualifying_sec_def excluded_sec_type_def sec_text_def
            sec_children_loop_concat)
  qed
qed

lemma sec_loop_nxml_text: "sec_loop [] (findall_sec root) = nxml_text root"
  by (simp add: sec_loop_concat nxml_text_def)

text \<open>
  C6, as the code has it. For a parsed document, \<open>__clean_nxml\<close> returns
  \<open>(None, None)\<close> when no \<open>title-group/title\<close> element is found below the root or
  when no text was collected. Otherwise it returns a title together with the collected
  text, and the title is the text of the title element prefixed with
  \<open>StatPearls Chapter: \<close> whenever that element has a text of its own. The collected text
  runs, in document order, over the \<open>sec\<close> elements below the root that declare a
  \<open>sec-type\<close> other than \<open>Continuing Education Activity\<close> (sections of that type, and
  sections without the attribute, give nothing) and, in each, over the direct \<open>title\<close>
  and \<open>p\<close> children that have a non-empty text of their own, each such text followed by
  a newline; the text of an element is what precedes its first child. With the right
  extension and a file that parses, nothing is raised.
\<close>

theorem nxml_extraction:
  "(find_title root = None \<or> nxml_text root = [] \<longrightarrow> fst (nxml_extract file root w) = None)
   \<and> (\<forall>t. find_title root = Some t \<and> nxml_text root \<noteq> [] \<longrightarrow>
          (\<exists>title. fst (nxml_extract file root w) = Some (title, nxml_text root)
             \<and> (\<forall>s. elem_text t = Some s \<longrightarrow> title = ''StatPearls Chapter: '' @ s)))
   \<and> (ext_of file = ''nxml'' \<longrightarrow> et_parse lib file = Some root \<longrightarrow>
        clean_nxml lib file w = Inr (nxml_extract file root w))"
proof (intro conjI)
  show "find_title root = None \<or> nxml_text root = [] \<longrightarrow> fst (nxml_extract file root w) = None"
    by (auto simp: nxml_extract_def sec_loop_nxml_text Let_def split: option.split)
next
  show "\<forall>t. find_title root = Some t \<and> nxml_text root \<noteq> [] \<longrightarrow>
          (\<exists>title. fst (nxml_extract file root w) = Some (title, nxml_text root)
             \<and> (\<forall>s. elem_text t = Some s \<longrightarrow> title = ''StatPearls Chapter: '' @ s))"
  proof (intro allI impI)
    fix t
    assume a: "find_title root = Some t \<and> nxml_text root \<noteq> []"
    then have "fst (nxml_extract file root w) = Some (format_title (elem_text t), nxml_text root)"
      by (simp add: nxml_extract_def sec_loop_nxml_text Let_def)
    moreover have "\<forall>s. elem_text t = Some s \<longrightarrow> format_title (elem_text t) = ''StatPearls Chapter: '' @ s"
      by (simp add: format_title_def)
    ultimately show "\<exists>title. fst (nxml_extract file root w) = Some (title, nxml_text root)
             \<and> (\<forall>s. elem_text t = Some s \<longrightarrow> title = ''StatPearls Chapter: '' @ s)"
      by (intro exI [where x = "format_title (elem_text t)"] conjI)
  qed
next
  show "ext_of file = ''nxml'' \<longrightarrow> et_parse lib file = Some root \<longrightarrow>
        clean_nxml lib file w = Inr (nxml_extract file root w)"
    by (simp add: clean_nxml_def)
qed

theorem nxml_extraction_witness:
  "ext_of ''data/asthma.nxml'' = ''nxml''
   \<and> et_parse example_readers ''data/asthma.nxml'' = Some example_nxml
   \<and> find_title example_nxml = Some (Element ''title'' [] (Some ''Asthma'') [])
   \<and> nxml_text example_nxml \<noteq> []
   \<and> clean_nxml example_readers ''data/asthma.nxml'' (empty_world :: unit world)
       = Inr (nxml_extract ''data/asthma.nxml'' example_nxml empty_world)
   \<and> fst (nxml_extract ''data/asthma.nxml'' example_nxml (empty_world :: unit world))
       = Some (''StatPearls Chapter: Asthma'',
               ''Introduction'' @ [newline] @ ''Asthma is common.'' @ [newline])
   \<and> (find_title (Element ''book-part'' [] None []) = None
        \<and> fst (nxml_extract ''data/untitled.nxml'' (Element ''book-part'' [] None [])
                 (empty_world :: unit world)) = None)"
proof -
  have e: "ext_of ''data/asthma.nxml'' = ''nxml''" by (simp add: ext_of_def)
  have p: "et_parse example_readers ''data/asthma.nxml'' = Some example_nxml"
    by (simp add: example_readers_def)
  have ft: "find_title example_nxml = Some (Element ''title'' [] (Some ''Asthma'') [])"
    by (simp add: find_title_def example_nxml_def)
  have nt: "nxml_text example_nxml = ''Introduction'' @ [newline] @ ''Asthma is common.'' @ [newline]"
    by (simp add: nxml_text_def findall_sec_def example_nxml_def qualifying_sec_def
          sec_text_def truthy_def)
  have ne: "nxml_text example_nxml \<noteq> []" by (simp add: nt)
  note t = nxml_extraction [of example_nxml "''data/asthma.nxml''" "empty_world :: unit world"
             example_readers]
  have c: "clean_nxml example_readers ''data/asthma.nxml'' (empty_world :: unit world)
       = Inr (nxml_extract ''data/asthma.nxml'' example_nxml empty_world)"
    using t [THEN conjunct2, THEN conjunct2, THEN mp, OF e, THEN mp, OF p] .
  have "\<exists>title. fst (nxml_extract ''data/asthma.nxml'' example_nxml (empty_world :: unit world))
            = Some (title, nxml_text example_nxml)
          \<and> (\<forall>s. elem_text (Element ''title'' [] (Some ''Asthma'') []) = Some s
                \<longrightarrow> title = ''StatPearls Chapter: '' @ s)"
    using t [THEN conjunct2, THEN conjunct1, THEN spec, THEN mp, OF conjI, OF ft ne] .
  then obtain title where
        f0: "fst (nxml_extract ''data/asthma.nxml'' example_nxml (empty_world :: unit world))
              = Some (title, nxml_text example_nxml)"
    and ti: "\<forall>s. elem_text (Element ''title'' [] (Some ''Asthma'') []) = Some s
                \<longrightarrow> title = ''StatPearls Chapter: '' @ s"
    by (elim exE conjE)
  have "title = ''StatPearls Chapter: '' @ ''Asthma''"
    using ti [THEN spec, of "''Asthma''"] by simp
  then have f: "fst (nxml_extract ''data/asthma.nxml'' example_nxml (empty_world :: unit world))
       = Some (''StatPearls Chapter: Asthma'',
               ''Introduction'' @ [newline] @ ''Asthma is common.'' @ [newline])"
    using f0 by (simp add: nt)
  have u: "find_title (Element ''book-part'' [] None []) = None" by (simp add: find_title_def)
  have v: "fst (nxml_extract ''data/untitled.nxml'' (Element ''book-part'' [] None [])
                 (empty_world :: unit world)) = None"
    using nxml_extraction [of "Element ''book-part'' [] None []" "''data/untitled.nxml''"
             "empty_world :: unit world" example_readers, THEN conjunct1, THEN mp, OF disjI1, OF u] .
  show ?thesis by (intro conjI) (rule e p ft ne c f u v)+
qed

text \<open>
  C6 as stated fails: a direct \<open>title\<close> or \<open>p\<close> child without text of its own gives
  nothing, not even its newline, and the text set inside inline markup is never read. A
  paragraph that is all bold leaves no trace; when it is the only paragraph the extractor
  returns \<open>(None, None)\<close> although the title is there; and a title set in italics is
  not returned as the document title.
\<close>

theorem nxml_skips_elements_without_text:
  "fst (nxml_extract ''data/markup.nxml'' markup_chapter (empty_world :: unit world))
     = Some (''StatPearls Chapter: None'', ''Introduction'' @ [newline] @ ''Asthma is '' @ [newline])
   \<and> claimed_nxml_text markup_chapter
       = ''Introduction'' @ [newline] @ [newline] @ ''Asthma is '' @ [newline]
   \<and> find_title bold_chapter = Some (Element ''title'' [] (Some ''Asthma'') [])
   \<and> claimed_nxml_text bold_chapter = [newline]
   \<and> fst (nxml_extract ''data/bold.nxml'' bold_chapter (empty_world :: unit world)) = None"
  by (simp add: nxml_extract_def find_title_def findall_sec_def markup_chapter_def bold_chapter_def
        claimed_nxml_text_def claimed_sec_text_def qualifying_sec_def truthy_def
        excluded_sec_type_def format_title_def Let_def)

subsection \<open>Cleaning\<close>

lemma record_cleaned_success:
  "record_cleaned file (Inr (Some (title, body), w1)) h =
     Inr (h\<lparr>data_dict := dict_set (data_dict h) title body\<rparr>,
          w1\<lparr>cleaned := dict_set (cleaned w1) (sanitize_title title @ ''.txt'') body\<rparr>)"
  by (simp add: record_cleaned_def)

lemma dict_set_lookup: "map_of (dict_set d k v) k = Some v"
  by (simp add: dict_set_map_of)

lemma dict_set_other: "k' \<noteq> k \<Longrightarrow> map_of (dict_set d k v) k' = map_of d k'"
  by (simp add: dict_set_map_of)

lemma clean_file_distinct:
  assumes "clean_file lib file (h, w) = Inr (h', w')" and "distinct (map fst (data_dict h))"
  shows "distinct (map fst (data_dict h'))"
proof (cases "dispatch lib file w")
  case None
  with assms show ?thesis by (auto simp: clean_file_def)
next
  case (Some r)
  show ?thesis
  proof (cases r)
    case (Inl e)
    with Some assms show ?thesis by (simp add: clean_file_def record_cleaned_def)
  next
    case (Inr p)
    obtain res w1 where p: "p = (res, w1)" by (cases p)
    show ?thesis
    proof (cases res)
      case None
      with Some Inr p assms show ?thesis by (auto simp: clean_file_def record_cleaned_def)
    next
      case (Some tb)
      obtain title body where tb: "tb = (title, body)" by (cases tb)
      from \<open>dispatch lib file w = Some r\<close> Inr p Some tb assms(1)
      have "h' = h\<lparr>data_dict := dict_set (data_dict h) title body\<rparr>"
        by (auto simp: clean_file_def record_cleaned_def)
      then show ?thesis using assms(2) by (simp add: dict_set_distinct)
    qed
  qed
qed

lemma clean_files_distinct:
  "clean_files lib files (h, w) = Inr (h', w') \<Longrightarrow> distinct (map fst (data_dict h))
   \<Longrightarrow> distinct (map fst (data_dict h'))"
proof (induction files arbitrary: h w)
  case Nil
  then show ?case by simp
next
  case (Cons f fs)
  from Cons.prems(1) obtain h1 w1 where s: "clean_file lib f (h, w) = Inr (h1, w1)"
    and r: "clean_files lib fs (h1, w1) = Inr (h', w')"
    by (auto split: sum.splits)
  from s Cons.prems(2) have "distinct (map fst (data_dict h1))" by (rule clean_file_distinct)
  with r show ?case by (rule Cons.IH)
qed

lemma dispatch_a_nxml:
  "dispatch example_readers ''data/a.nxml'' (w :: 'v world)
   = Some (Inr (Some (''StatPearls Chapter: A/B'', ''one'' @ [newline]), w))"
proof -
  have e: "ext_of ''data/a.nxml'' = ''nxml''" by (simp add: ext_of_def)
  have x: "nxml_extract ''data/a.nxml'' (small_chapter ''A/B'' ''one'') w
           = (Some (''StatPearls Chapter: A/B'', ''one'' @ [newline]), w)"
    by (simp add: nxml_extract_def find_title_def findall_sec_def small_chapter_def
          excluded_sec_type_def truthy_def format_title_def)
  show ?thesis
    by (simp add: dispatch_def e clean_nxml_def example_readers_def x)
qed

lemma dispatch_b_nxml:
  "dispatch example_readers ''data/b.nxml'' (w :: 'v world)
   = Some (Inr (Some (''StatPearls Chapter: AB'', ''two'' @ [newline]), w))"
proof -
  have e: "ext_of ''data/b.nxml'' = ''nxml''" by (simp add: ext_of_def)
  have x: "nxml_extract ''data/b.nxml'' (small_chapter ''AB'' ''two'') w
           = (Some (''StatPearls Chapter: AB'', ''two'' @ [newline]), w)"
    by (simp add: nxml_extract_def find_title_def findall_sec_def small_chapter_def
          excluded_sec_type_def truthy_def format_title_def)
  show ?thesis
    by (simp add: dispatch_def e clean_nxml_def example_readers_def x)
qed

lemma sanitize_chapter_a: "sanitize_title ''StatPearls Chapter: A/B'' = ''StatPearls Chapter AB''"
  by (simp add: sanitize_title_def invalid_chars_def strip_def is_space_def)

lemma sanitize_chapter_b: "sanitize_title ''StatPearls Chapter: AB'' = ''StatPearls Chapter AB''"
  by (simp add: sanitize_title_def invalid_chars_def strip_def is_space_def)

lemma clean_nxml_text_nonempty:
  "clean_nxml lib file w = Inr (Some (title, body), w1) \<Longrightarrow> body \<noteq> []"
  by (auto simp: clean_nxml_def nxml_extract_def Let_def split: if_splits option.splits)

lemma other_extractors_never_none:
  "clean_pdf lib file w \<noteq> Inr (None, w1)"
  "clean_txt lib file w \<noteq> Inr (None, w1)"
  "clean_docx lib file w \<noteq> Inr (None, w1)"
  "clean_pptx lib file w \<noteq> Inr (None, w1)"
  by (auto simp: clean_pdf_def clean_txt_def clean_docx_def clean_pptx_def Let_def
           split: if_splits option.splits)

lemma stem_empty_txt: "path_stem ''data/empty.txt'' = ''empty''"
  by (simp add: path_stem_def path_name_def ext_of_def Let_def)

lemma sanitize_empty: "sanitize_title ''empty'' = ''empty''"
  by (simp add: sanitize_title_def invalid_chars_def strip_def is_space_def)

text \<open>
  C3, as the code has it. When the extractor chosen for a file returns a title and a
  text, \<open>clean_data\<close> records the text under the title exactly as the extractor returned
  it; the sanitized title (the characters \<open><>:"/\|?*\<close> removed, the whitespace around it
  trimmed) only names the file written to the cleaned-data folder. An earlier entry
  with the same title is overwritten and the keys stay unique, so that title has one
  entry; the other entries are unchanged.
\<close>

theorem clean_file_records_title:
  assumes "dispatch lib file w = Some (Inr (Some (title, body), w1))"
    and "distinct (map fst (data_dict h))"
  shows "\<exists>h' w'. clean_file lib file (h, w) = Inr (h', w')
           \<and> map_of (data_dict h') title = Some body
           \<and> (\<forall>k. k \<noteq> title \<longrightarrow> map_of (data_dict h') k = map_of (data_dict h) k)
           \<and> set (map fst (data_dict h')) = insert title (set (map fst (data_dict h)))
           \<and> distinct (map fst (data_dict h'))
           \<and> map_of (cleaned w') (sanitize_title title @ ''.txt'') = Some body"
proof -
  let ?h = "h\<lparr>data_dict := dict_set (data_dict h) title body\<rparr>"
  let ?w = "w1\<lparr>cleaned := dict_set (cleaned w1) (sanitize_title title @ ''.txt'') body\<rparr>"
  have c: "clean_file lib file (h, w) = Inr (?h, ?w)"
    using assms(1) by (simp add: clean_file_def record_cleaned_success)
  have 1: "map_of (data_dict ?h) title = Some body" by (simp add: dict_set_lookup)
  have 2: "\<forall>k. k \<noteq> title \<longrightarrow> map_of (data_dict ?h) k = map_of (data_dict h) k"
    by (simp add: dict_set_other)
  have 3: "set (map fst (data_dict ?h)) = insert title (set (map fst (data_dict h)))"
    using dict_set_keys [of "data_dict h" title body] by simp
  have 4: "distinct (map fst (data_dict ?h))"
    using assms(2) by (simp add: dict_set_distinct)
  have 5: "map_of (cleaned ?w) (sanitize_title title @ ''.txt'') = Some body"
    by (simp add: dict_set_lookup)
  show ?thesis using c 1 2 3 4 5 by blast
qed

theorem clean_file_records_title_witness:
  "dispatch example_readers ''data/a.nxml'' (empty_world :: unit world)
     = Some (Inr (Some (''StatPearls Chapter: A/B'', ''one'' @ [newline]), empty_world))
   \<and> distinct (map fst (data_dict (init_handler\<lparr>data_dict := [(''StatPearls Chapter: A/B'', ''old'')]\<rparr> :: unit data_handler)))
   \<and> (\<exists>h' w'. clean_file example_readers ''data/a.nxml''
                  (init_handler\<lparr>data_dict := [(''StatPearls Chapter: A/B'', ''old'')]\<rparr>, empty_world :: unit world)
                = Inr (h', w')
         \<and> map_of (data_dict h') ''StatPearls Chapter: A/B'' = Some (''one'' @ [newline])
         \<and> set (map fst (data_dict h')) = {''StatPearls Chapter: A/B''}
         \<and> distinct (map fst (data_dict h'))
         \<and> map_of (cleaned w') ''StatPearls Chapter AB.txt'' = Some (''one'' @ [newline]))"
proof -
  define h :: "unit data_handler"
    where "h = init_handler\<lparr>data_dict := [(''StatPearls Chapter: A/B'', ''old'')]\<rparr>"
  have d: "dispatch example_readers ''data/a.nxml'' (empty_world :: unit world)
     = Some (Inr (Some (''StatPearls Chapter: A/B'', ''one'' @ [newline]), empty_world))"
    by (rule dispatch_a_nxml)
  have i: "distinct (map fst (data_dict h))" by (simp add: h_def)
  have k: "insert ''StatPearls Chapter: A/B'' (set (map fst (data_dict h))) = {''StatPearls Chapter: A/B''}"
    by (simp add: h_def)
  from clean_file_records_title [OF d i]
  obtain h' w' where c: "clean_file example_readers ''data/a.nxml'' (h, empty_world :: unit world) = Inr (h', w')"
    and 1: "map_of (data_dict h') ''StatPearls Chapter: A/B'' = Some (''one'' @ [newline])"
    and 3: "set (map fst (data_dict h')) = insert ''StatPearls Chapter: A/B'' (set (map fst (data_dict h)))"
    and 4: "distinct (map fst (data_dict h'))"
    and 5: "map_of (cleaned w') (sanitize_title ''StatPearls Chapter: A/B'' @ ''.txt'') = Some (''one'' @ [newline])"
    by blast
  from 3 k have k3: "set (map fst (data_dict h')) = {''StatPearls Chapter: A/B''}" by simp
  from 5 have k5: "map_of (cleaned w') ''StatPearls Chapter AB.txt'' = Some (''one'' @ [newline])"
    by (simp add: sanitize_chapter_a)
  have "\<exists>h' w'. clean_file example_readers ''data/a.nxml'' (h, empty_world :: unit world) = Inr (h', w')
         \<and> map_of (data_dict h') ''StatPearls Chapter: A/B'' = Some (''one'' @ [newline])
         \<and> set (map fst (data_dict h')) = {''StatPearls Chapter: A/B''}
         \<and> distinct (map fst (data_dict h'))
         \<and> map_of (cleaned w') ''StatPearls Chapter AB.txt'' = Some (''one'' @ [newline])"
    using c 1 k3 4 k5 by blast
  then show ?thesis using d i unfolding h_def by blast
qed

text \<open>
  C3 as stated fails: two chapters titled \<open>A/B\<close> and \<open>AB\<close> have the same sanitized
  title, yet the mapping holds both, under keys that are not sanitized (each contains a
  colon, the first a slash as well); only the cleaned-data folder holds a single file,
  with the later text.
\<close>

theorem clean_data_keys_not_sanitized:
  "clean_data example_readers
     (init_handler\<lparr>data := [''data/a.nxml'', ''data/b.nxml'']\<rparr>, empty_world :: unit world)
   = Inr (\<lparr>data = [''data/a.nxml'', ''data/b.nxml''],
           data_dict = [(''StatPearls Chapter: A/B'', ''one'' @ [newline]),
                        (''StatPearls Chapter: AB'', ''two'' @ [newline])],
           vectorized_data = []\<rparr>,
          \<lparr>disk = {}, cleaned = [(''StatPearls Chapter AB.txt'', ''two'' @ [newline])],
           artifact = None, out = [''Cleaning data...'']\<rparr>)
   \<and> sanitize_title ''StatPearls Chapter: A/B'' = ''StatPearls Chapter AB''
   \<and> sanitize_title ''StatPearls Chapter: AB'' = ''StatPearls Chapter AB''
   \<and> \<not> safe_title ''StatPearls Chapter: A/B''
   \<and> \<not> safe_title ''StatPearls Chapter: AB''"
proof (intro conjI)
  show "clean_data example_readers
     (init_handler\<lparr>data := [''data/a.nxml'', ''data/b.nxml'']\<rparr>, empty_world :: unit world)
   = Inr (\<lparr>data = [''data/a.nxml'', ''data/b.nxml''],
           data_dict = [(''StatPearls Chapter: A/B'', ''one'' @ [newline]),
                        (''StatPearls Chapter: AB'', ''two'' @ [newline])],
           vectorized_data = []\<rparr>,
          \<lparr>disk = {}, cleaned = [(''StatPearls Chapter AB.txt'', ''two'' @ [newline])],
           artifact = None, out = [''Cleaning data...'']\<rparr>)"
    by (simp add: clean_data_def clean_file_def dispatch_a_nxml dispatch_b_nxml
          record_cleaned_def sanitize_chapter_a sanitize_chapter_b init_handler_def
          empty_world_def print_def)
  show "sanitize_title ''StatPearls Chapter: A/B'' = ''StatPearls Chapter AB''"
    by (rule sanitize_chapter_a)
  show "sanitize_title ''StatPearls Chapter: AB'' = ''StatPearls Chapter AB''"
    by (rule sanitize_chapter_b)
  show "\<not> safe_title ''StatPearls Chapter: A/B''"
    by (simp add: safe_title_def invalid_chars_def)
  show "\<not> safe_title ''StatPearls Chapter: AB''"
    by (simp add: safe_title_def invalid_chars_def)
qed

text \<open>
  C4, as the code has it. A document is left out of the mapping when its extractor
  returns \<open>(None, None)\<close>: the skip is logged and the loop goes on with the remaining
  files. Only the NXML extractor returns that (no title element, or no text collected),
  so a text it does return is never empty; the PDF, TXT, DOCX and PPTX extractors always
  return a title and a text, and a TXT file is recorded with whatever it holds, the
  empty text included.
\<close>

theorem clean_file_skips_only_none:
  "(dispatch lib file w = Some (Inr (None, w1)) \<longrightarrow>
      clean_files lib (file # files) (h, w)
        = clean_files lib files (h, print (''Error cleaning '' @ file @ ''. Skipping...'') w1))
   \<and> (clean_nxml lib file w = Inr (Some (title, body), w1) \<longrightarrow> body \<noteq> [])
   \<and> clean_pdf lib file w \<noteq> Inr (None, w1)
   \<and> clean_txt lib file w \<noteq> Inr (None, w1)
   \<and> clean_docx lib file w \<noteq> Inr (None, w1)
   \<and> clean_pptx lib file w \<noteq> Inr (None, w1)
   \<and> (ext_of file \<in> {''txt'', ''TXT''} \<longrightarrow> read_text lib file = Some content \<longrightarrow>
        clean_file lib file (h, w)
          = Inr (h\<lparr>data_dict := dict_set (data_dict h) (path_stem file) content\<rparr>,
                 w\<lparr>cleaned := dict_set (cleaned w)
                                 (sanitize_title (path_stem file) @ ''.txt'') content\<rparr>))"
proof (intro conjI impI)
  assume "dispatch lib file w = Some (Inr (None, w1))"
  then show "clean_files lib (file # files) (h, w)
        = clean_files lib files (h, print (''Error cleaning '' @ file @ ''. Skipping...'') w1)"
    by (simp add: clean_file_def record_cleaned_def)
next
  assume "clean_nxml lib file w = Inr (Some (title, body), w1)"
  then show "body \<noteq> []" by (rule clean_nxml_text_nonempty)
next
  show "clean_pdf lib file w \<noteq> Inr (None, w1)" by (rule other_extractors_never_none)
  show "clean_txt lib file w \<noteq> Inr (None, w1)" by (rule other_extractors_never_none)
  show "clean_docx lib file w \<noteq> Inr (None, w1)" by (rule other_extractors_never_none)
  show "clean_pptx lib file w \<noteq> Inr (None, w1)" by (rule other_extractors_never_none)
next
  assume e: "ext_of file \<in> {''txt'', ''TXT''}" and r: "read_text lib file = Some content"
  from e have "dispatch lib file w = Some (clean_txt lib file w)"
    by (auto simp: dispatch_def)
  moreover have "clean_txt lib file w = Inr (Some (path_stem file, content), w)"
    using e r by (auto simp: clean_txt_def)
  ultimately show "clean_file lib file (h, w)
          = Inr (h\<lparr>data_dict := dict_set (data_dict h) (path_stem file) content\<rparr>,
                 w\<lparr>cleaned := dict_set (cleaned w)
                                 (sanitize_title (path_stem file) @ ''.txt'') content\<rparr>)"
    by (simp add: clean_file_def record_cleaned_def)
qed

theorem clean_file_skips_only_none_witness:
  "dispatch example_readers ''data/untitled.nxml'' (empty_world :: unit world)
     = Some (Inr (None, print ''Error extracting title from data/untitled.nxml. Skipping...'' empty_world))
   \<and> clean_files example_readers [''data/untitled.nxml'', ''data/empty.txt'']
         (init_handler, empty_world :: unit world)
       = clean_files example_readers [''data/empty.txt'']
           (init_handler,
            print ''Error cleaning data/untitled.nxml. Skipping...''
              (print ''Error extracting title from data/untitled.nxml. Skipping...'' empty_world))
   \<and> clean_nxml example_readers ''data/asthma.nxml'' (empty_world :: unit world)
       = Inr (Some (''StatPearls Chapter: Asthma'',
                    ''Introduction'' @ [newline] @ ''Asthma is common.'' @ [newline]), empty_world)
   \<and> ''Introduction'' @ [newline] @ ''Asthma is common.'' @ [newline] \<noteq> []
   \<and> ext_of ''data/empty.txt'' \<in> {''txt'', ''TXT''}
   \<and> read_text example_readers ''data/empty.txt'' = Some []
   \<and> clean_file example_readers ''data/empty.txt'' (init_handler, empty_world :: unit world)
       = Inr (init_handler\<lparr>data_dict := [(''empty'', [])]\<rparr>,
              empty_world\<lparr>cleaned := [(''empty.txt'', [])]\<rparr>)"
proof -
  let ?w = "empty_world :: unit world"
  let ?w1 = "print ''Error extracting title from data/untitled.nxml. Skipping...'' ?w"
  let ?body = "''Introduction'' @ [newline] @ ''Asthma is common.'' @ [newline]"
  have eu: "ext_of ''data/untitled.nxml'' = ''nxml''" by (simp add: ext_of_def)
  have d: "dispatch example_readers ''data/untitled.nxml'' ?w = Some (Inr (None, ?w1))"
    by (simp add: dispatch_def eu clean_nxml_def example_readers_def nxml_extract_def
          find_title_def)
  note t1 = clean_file_skips_only_none [of example_readers "''data/untitled.nxml''" ?w ?w1
              "[''data/empty.txt'']" init_handler]
  have a: "clean_files example_readers [''data/untitled.nxml'', ''data/empty.txt''] (init_handler, ?w)
       = clean_files example_readers [''data/empty.txt'']
           (init_handler, print ''Error cleaning data/untitled.nxml. Skipping...'' ?w1)"
    using t1 [THEN conjunct1, THEN mp, OF d] by simp
  have ea: "ext_of ''data/asthma.nxml'' = ''nxml''" by (simp add: ext_of_def)
  have n: "clean_nxml example_readers ''data/asthma.nxml'' ?w
       = Inr (Some (''StatPearls Chapter: Asthma'', ?body), ?w)"
    by (simp add: clean_nxml_def ea example_readers_def nxml_extract_def find_title_def
          findall_sec_def example_nxml_def excluded_sec_type_def truthy_def format_title_def)
  note t2 = clean_file_skips_only_none [of example_readers "''data/asthma.nxml''" ?w ?w
              "[]" init_handler "''StatPearls Chapter: Asthma''" ?body]
  have b: "?body \<noteq> []"
    using t2 [THEN conjunct2, THEN conjunct1, THEN mp, OF n] .
  have et: "ext_of ''data/empty.txt'' \<in> {''txt'', ''TXT''}" by (simp add: ext_of_def)
  have r: "read_text example_readers ''data/empty.txt'' = Some []"
    by (simp add: example_readers_def)
  note t3 = clean_file_skips_only_none [of example_readers "''data/empty.txt''" ?w ?w
              "[]" init_handler "[]" "[]" "[]"]
  note t3' = t3 [THEN conjunct2, THEN conjunct2, THEN conjunct2, THEN conjunct2,
                 THEN conjunct2, THEN conjunct2, THEN mp, OF et, THEN mp, OF r]
  have c: "clean_file example_readers ''data/empty.txt'' (init_handler, ?w)
       = Inr (init_handler\<lparr>data_dict := [(''empty'', [])]\<rparr>,
              empty_world\<lparr>cleaned := [(''empty.txt'', [])]\<rparr>)"
    using t3' by (simp add: stem_empty_txt sanitize_empty init_handler_def empty_world_def)
  show ?thesis using d a n b et r c by blast
qed

text \<open>
  C4 as stated fails: an empty TXT file is not skipped. It is recorded under its stem
  with the empty text, and an empty file is written to the cleaned-data folder.
\<close>

theorem clean_data_keeps_empty_text:
  "clean_data example_readers
     (init_handler\<lparr>data := [''data/empty.txt'']\<rparr>, empty_world :: unit world)
   = Inr (\<lparr>data = [''data/empty.txt''], data_dict = [(''empty'', [])], vectorized_data = []\<rparr>,
          \<lparr>disk = {}, cleaned = [(''empty.txt'', [])], artifact = None,
           out = [''Cleaning data...'']\<rparr>)"
proof -
  have e: "ext_of ''data/empty.txt'' = ''txt''" by (simp add: ext_of_def)
  have d: "dispatch example_readers ''data/empty.txt'' (w :: unit world)
           = Some (Inr (Some (''empty'', []), w))" for w
    by (simp add: dispatch_def e clean_txt_def example_readers_def stem_empty_txt)
  show ?thesis
    by (simp add: clean_data_def clean_file_def d record_cleaned_def sanitize_empty
          init_handler_def empty_world_def print_def)
qed

subsection \<open>PDF clean-up\<close>






















end
